theory Spec2Isabelle
  imports Main "HOL-Library.Word"
begin

section \<open>Conventions of the embedding\<close>

text \<open>
  The Go package \<^verbatim>\<open>arena\<close> is embedded function by function, for a 64-bit platform.

  \<^item> A \<^verbatim>\<open>uintptr\<close> value (a size, an offset, an address) is a natural number below
    \<open>2 ^ 64\<close>, and every \<^verbatim>\<open>uintptr\<close> addition and subtraction of the monotonic arena is
    reduced modulo \<open>2 ^ 64\<close>, as the machine does. The conversions \<^verbatim>\<open>int(x)\<close> of a
    \<^verbatim>\<open>uintptr\<close> and \<^verbatim>\<open>uintptr(i)\<close> of an \<^verbatim>\<open>int\<close> are two's complement. Lengths and
    capacities of slices, the read offset of the byte buffer and the counters of the pool
    are unbounded numbers.
  \<^item> An \<^verbatim>\<open>unsafe.Pointer\<close> is an address, \<open>0\<close> being \<^verbatim>\<open>nil\<close>.
  \<^item> The Go runtime is a parameter: \<open>hostAddr R k n\<close> is the address at which the
    \<open>k\<close>-th \<^verbatim>\<open>make([]byte, n)\<close> of the run places its block, and
    \<open>appendCap R c n\<close> is the capacity the built-in \<^verbatim>\<open>append\<close> picks when it has
    to move a slice of capacity \<open>c\<close> to hold \<open>n\<close> elements. \<^verbatim>\<open>make([]byte, n)\<close> panics
    beyond the runtime's allocation limit and \<^verbatim>\<open>unsafe.Slice\<close> panics on a length that is
    negative as an \<^verbatim>\<open>int\<close> or that runs past the end of the address space; running out
    of memory below that limit ends the process and is not modelled. The host allocations
    of the slice layer (\<^verbatim>\<open>make([]T, len, cap)\<close>, \<^verbatim>\<open>append\<close>, \<^verbatim>\<open>new(T)\<close>) are taken to
    succeed whenever their arguments are in range.
  \<^item> A panic is a value of type \<open>error\<close>; a function that can panic returns its
    result together with the state it leaves behind, because the package mutates its
    objects before it panics and a caller may recover.
  \<^item> Mutexes are left out: the embedding is sequential.
\<close>

datatype error =
    DivideByZero            \<comment> \<open>\<^verbatim>\<open>x % 0\<close>\<close>
  | FailedOnNewBuffer       \<comment> \<open>\<^verbatim>\<open>panic("failed to allocate on newly created buffer")\<close>\<close>
  | TruncationOutOfRange    \<comment> \<open>\<^verbatim>\<open>panic("arena: truncation out of range")\<close>\<close>
  | SliceBoundsOutOfRange   \<comment> \<open>a slice expression out of range\<close>
  | MakeSliceOutOfRange     \<comment> \<open>\<^verbatim>\<open>make\<close> with a bad length or capacity\<close>
  | UnsafeSliceOutOfRange   \<comment> \<open>\<^verbatim>\<open>unsafe.Slice(ptr, n)\<close> with a bad \<open>n\<close>\<close>
  | NilDereference          \<comment> \<open>a method called through a nil pointer or interface\<close>

record runtime =
  hostAddr :: "nat \<Rightarrow> nat \<Rightarrow> nat"
  appendCap :: "nat \<Rightarrow> nat \<Rightarrow> nat"

record world =
  mem :: "nat \<Rightarrow> 8 word"  \<comment> \<open>the byte stored at each address\<close>
  allocs :: nat             \<comment> \<open>how many blocks the host allocator has handed out\<close>

text \<open>Reduction to a \<^verbatim>\<open>uintptr\<close>, and the conversions between \<^verbatim>\<open>uintptr\<close> and \<^verbatim>\<open>int\<close>.\<close>

definition uintptr :: "nat \<Rightarrow> nat" where
  "uintptr n = n mod 2 ^ 64"

definition uintptr_of_int :: "int \<Rightarrow> nat" where
  "uintptr_of_int i = nat (i mod 2 ^ 64)"

definition int_of_uintptr :: "nat \<Rightarrow> int" where
  "int_of_uintptr n =
     (if uintptr n < 2 ^ 63 then int (uintptr n) else int (uintptr n) - 2 ^ 64)"

text \<open>The loop \<^verbatim>\<open>for i := range b { b[i] = 0 }\<close> over the \<open>n\<close> bytes at \<open>p\<close>.\<close>

definition memclr :: "(nat \<Rightarrow> 8 word) \<Rightarrow> nat \<Rightarrow> nat \<Rightarrow> (nat \<Rightarrow> 8 word)" where
  "memclr m p n = fold (\<lambda>i m'. m'(p + i := 0)) [0..<n] m"

text \<open>The allocation limit of the runtime (\<^verbatim>\<open>maxAlloc\<close>, \<open>2 ^ 48\<close> bytes on 64-bit Linux):
  \<^verbatim>\<open>make\<close> panics with \<^verbatim>\<open>makeslice: len out of range\<close> beyond it, which includes every
  length that is negative as an \<^verbatim>\<open>int\<close>.\<close>

definition maxAlloc :: nat where
  "maxAlloc = 2 ^ 48"

text \<open>\<^verbatim>\<open>make([]byte, n)\<close> followed by \<^verbatim>\<open>unsafe.SliceData\<close>: a zeroed block at the
  address the runtime chooses.\<close>

definition make_bytes :: "runtime \<Rightarrow> world \<Rightarrow> nat \<Rightarrow> error + nat \<times> world" where
  "make_bytes R w n =
     (if maxAlloc < n then Inl MakeSliceOutOfRange
      else
        let p = hostAddr R (allocs w) n
        in Inr (p, w\<lparr>mem := memclr (mem w) p n, allocs := Suc (allocs w)\<rparr>))"

text \<open>The range check of \<^verbatim>\<open>unsafe.Slice(ptr, n)\<close> on bytes: the length is not negative as
  an \<^verbatim>\<open>int\<close> and is at most \<^verbatim>\<open>-uintptr(ptr)\<close>, the bytes from \<open>ptr\<close> to the end of the
  address space.\<close>

definition unsafeSliceOK :: "nat \<Rightarrow> nat \<Rightarrow> bool" where
  "unsafeSliceOK p n = (n < 2 ^ 63 \<and> n \<le> uintptr (2 ^ 64 - uintptr p))"

section \<open>The monotonic arena\<close>

record monotonicBuffer =
  ptr :: nat
  offset :: nat
  bufsize :: nat            \<comment> \<open>the field \<^verbatim>\<open>size\<close>\<close>

record monotonicArena =
  buffers :: "monotonicBuffer list"
  peak :: nat
  minBufferSize :: nat
  initialBufferCount :: int

definition newMonotonicBuffer :: "int \<Rightarrow> monotonicBuffer" where
  "newMonotonicBuffer sz = \<lparr>ptr = 0, offset = 0, bufsize = uintptr_of_int sz\<rparr>"

text \<open>\<^verbatim>\<open>s.size - s.offset\<close> on \<^verbatim>\<open>uintptr\<close>: it wraps around when the offset is past
  the size.\<close>

definition availableBytes :: "monotonicBuffer \<Rightarrow> nat" where
  "availableBytes s =
     (if offset s \<le> bufsize s then bufsize s - offset s
      else 2 ^ 64 + bufsize s - offset s)"

text \<open>The number of steps the alignment loop has left, at most, from a pointer: it stops at
  the latest when the pointer wraps around to 0. It is used for termination only.\<close>

definition alignSteps :: "nat \<Rightarrow> nat \<Rightarrow> nat" where
  "alignSteps p al =
     (if p mod al = 0 then 0 else if p < 2 ^ 64 then 2 ^ 64 - p else 2 ^ 64 + 1)"

text \<open>
  The alignment loop
  \<^verbatim>\<open>for alignedPtr := start; alignedPtr%alignment != 0; alignedPtr++ { alignOffset++ }\<close>,
  returning the final \<^verbatim>\<open>alignOffset\<close>. Both callers reach it only with a non-zero
  alignment (a zero alignment panics in the first evaluation of the loop test, which the
  callers model); the test \<open>al \<noteq> 0\<close> makes the function total. The pointer wraps around
  to 0, where the loop stops.
\<close>

function alignLoop :: "nat \<Rightarrow> nat \<Rightarrow> nat \<Rightarrow> nat" where
  "alignLoop alignedPtr al alignOffset =
     (if al \<noteq> 0 \<and> alignedPtr mod al \<noteq> 0
      then alignLoop (uintptr (alignedPtr + 1)) al (uintptr (alignOffset + 1))
      else alignOffset)"
  by pat_completeness auto
termination
proof (relation "measure (\<lambda>(p, al, k). alignSteps p al)")
  show "wf (measure (\<lambda>(p, al, k). alignSteps p al))"
    by simp
next
  fix alignedPtr al alignOffset :: nat
  assume a: "al \<noteq> 0 \<and> alignedPtr mod al \<noteq> 0"
  define q where "q = uintptr (alignedPtr + 1)"
  have q: "q < 2 ^ 64"
    by (simp add: q_def uintptr_def)
  have mq_le: "alignSteps q al \<le> 2 ^ 64 - q"
    using q by (simp add: alignSteps_def)
  have "alignSteps q al < alignSteps alignedPtr al"
  proof (cases "alignedPtr < 2 ^ 64")
    case False
    with a have "alignSteps alignedPtr al = 2 ^ 64 + 1"
      by (simp add: alignSteps_def)
    moreover have "2 ^ 64 - q \<le> (2 ^ 64 :: nat)" by simp
    ultimately show ?thesis using mq_le by linarith
  next
    case True
    with a have mp: "alignSteps alignedPtr al = 2 ^ 64 - alignedPtr"
      by (simp add: alignSteps_def)
    show ?thesis
    proof (cases "alignedPtr + 1 < 2 ^ 64")
      case True
      then have "q = alignedPtr + 1"
        by (simp add: q_def uintptr_def)
      with mq_le mp True show ?thesis by linarith
    next
      case False
      with True have "alignedPtr + 1 = 2 ^ 64" by linarith
      then have "q = 0"
        by (simp add: q_def uintptr_def)
      then have "alignSteps q al = 0" by (simp add: alignSteps_def)
      with mp True show ?thesis by linarith
    qed
  qed
  then show "((uintptr (alignedPtr + 1), al, uintptr (alignOffset + 1)),
        (alignedPtr, al, alignOffset)) \<in> measure (\<lambda>(p, al, k). alignSteps p al)"
    by (simp add: q_def)
qed

declare alignLoop.simps [simp del]

text \<open>The lazy allocation at the head of \<^verbatim>\<open>monotonicBuffer.alloc\<close>:
  \<^verbatim>\<open>if s.ptr == nil { buf := make([]byte, s.size); s.ptr = ... }\<close>.\<close>

definition materialise ::
  "runtime \<Rightarrow> world \<Rightarrow> monotonicBuffer \<Rightarrow> error + monotonicBuffer \<times> world" where
  "materialise R w s =
     (if ptr s = 0
      then (case make_bytes R w (bufsize s) of
              Inl e \<Rightarrow> Inl e
            | Inr (p, w') \<Rightarrow> Inr (s\<lparr>ptr := p\<rparr>, w'))
      else Inr (s, w))"

text \<open>\<^verbatim>\<open>monotonicBuffer.alloc\<close>: \<open>Inr (Some p)\<close> is \<^verbatim>\<open>(p, true)\<close> and \<open>Inr None\<close> is
  \<^verbatim>\<open>(nil, false)\<close>. The block is materialised before anything else, so the buffer and
  the world change even when the request does not fit; and the offset is advanced before
  \<^verbatim>\<open>unsafe.Slice\<close> forms the slice to be zeroed, so it stays advanced when that panics.\<close>

definition monotonicBuffer_alloc ::
  "runtime \<Rightarrow> world \<Rightarrow> monotonicBuffer \<Rightarrow> nat \<Rightarrow> nat
     \<Rightarrow> (error + nat option) \<times> monotonicBuffer \<times> world" where
  "monotonicBuffer_alloc R w s sz al =
     (case materialise R w s of
        Inl e \<Rightarrow> (Inl e, s, w)
      | Inr (s1, w1) \<Rightarrow>
          if al = 0 then (Inl DivideByZero, s1, w1)
          else
            let alignOffset = alignLoop (uintptr (ptr s1 + offset s1)) al 0;
                allocSize = uintptr (sz + alignOffset)
            in if availableBytes s1 < allocSize then (Inr None, s1, w1)
               else
                 let p = uintptr (ptr s1 + offset s1 + alignOffset);
                     s2 = s1\<lparr>offset := uintptr (offset s1 + allocSize)\<rparr>
                 in if unsafeSliceOK p sz
                    then (Inr (Some p), s2, w1\<lparr>mem := memclr (mem w1) p sz\<rparr>)
                    else (Inl UnsafeSliceOutOfRange, s2, w1))"

definition monotonicBuffer_reset :: "monotonicBuffer \<Rightarrow> monotonicBuffer" where
  "monotonicBuffer_reset s = (if offset s = 0 then s else s\<lparr>offset := 0\<rparr>)"

definition monotonicBuffer_release :: "monotonicBuffer \<Rightarrow> monotonicBuffer" where
  "monotonicBuffer_release s = s\<lparr>offset := 0, ptr := 0\<rparr>"

datatype MonotonicArenaOption = WithMinBufferSize int | WithInitialBufferCount int

fun applyOption :: "MonotonicArenaOption \<Rightarrow> monotonicArena \<Rightarrow> monotonicArena" where
  "applyOption (WithMinBufferSize sz) a = a\<lparr>minBufferSize := uintptr_of_int sz\<rparr>"
| "applyOption (WithInitialBufferCount c) a = a\<lparr>initialBufferCount := c\<rparr>"

definition NewMonotonicArena :: "MonotonicArenaOption list \<Rightarrow> monotonicArena" where
  "NewMonotonicArena opts =
     (let a = fold applyOption opts
                \<lparr>buffers = [], peak = 0, minBufferSize = 1024 * 32, initialBufferCount = 1\<rparr>
      in a\<lparr>buffers := replicate (nat (initialBufferCount a))
                          (newMonotonicBuffer (int_of_uintptr (minBufferSize a)))\<rparr>)"

text \<open>The internal helper \<^verbatim>\<open>len\<close>, a \<^verbatim>\<open>uintptr\<close> sum.\<close>

definition monotonicArena_len :: "monotonicArena \<Rightarrow> nat" where
  "monotonicArena_len a = uintptr (sum_list (map offset (buffers a)))"

text \<open>The first loop of \<^verbatim>\<open>Alloc\<close>: the buffers are tried in order, and each one tried
  is left as its \<^verbatim>\<open>alloc\<close> left it.\<close>

fun tryBuffers ::
  "runtime \<Rightarrow> world \<Rightarrow> monotonicBuffer list \<Rightarrow> nat \<Rightarrow> nat
     \<Rightarrow> (error + nat option) \<times> monotonicBuffer list \<times> world" where
  "tryBuffers R w [] sz al = (Inr None, [], w)"
| "tryBuffers R w (s # ss) sz al =
     (case monotonicBuffer_alloc R w s sz al of
        (Inr None, s', w') \<Rightarrow>
          (case tryBuffers R w' ss sz al of (r, ss', w'') \<Rightarrow> (r, s' # ss', w''))
      | (r, s', w') \<Rightarrow> (r, s' # ss, w'))"

text \<open>The peak update that \<^verbatim>\<open>Alloc\<close> performs after either successful allocation:
  \<^verbatim>\<open>currentLen := a.len(); if currentLen > a.peak { a.peak = currentLen }\<close>.\<close>

definition updatePeak :: "monotonicArena \<Rightarrow> monotonicArena" where
  "updatePeak a =
     (let currentLen = monotonicArena_len a
      in if currentLen > peak a then a\<lparr>peak := currentLen\<rparr> else a)"

definition monotonicArena_Alloc ::
  "runtime \<Rightarrow> world \<Rightarrow> monotonicArena \<Rightarrow> nat \<Rightarrow> nat
     \<Rightarrow> (error + nat) \<times> monotonicArena \<times> world" where
  "monotonicArena_Alloc R w a sz al =
     (case tryBuffers R w (buffers a) sz al of
        (Inl e, bs, w1) \<Rightarrow> (Inl e, a\<lparr>buffers := bs\<rparr>, w1)
      | (Inr (Some p), bs, w1) \<Rightarrow> (Inr p, updatePeak (a\<lparr>buffers := bs\<rparr>), w1)
      | (Inr None, bs, w1) \<Rightarrow>
          (let a1 = a\<lparr>buffers := bs\<rparr>;
               currentLen = monotonicArena_len a1
           in if currentLen > 0 \<and> al = 0 then (Inl DivideByZero, a1, w1)
              else
                let alignOffset = (if currentLen > 0 then alignLoop currentLen al 0 else 0);
                    requiredSize = uintptr (sz + alignOffset);
                    newBufferSize =
                      (if requiredSize < minBufferSize a1 then minBufferSize a1
                       else requiredSize);
                    newBuffer = newMonotonicBuffer (int_of_uintptr newBufferSize)
                in case monotonicBuffer_alloc R w1 newBuffer sz al of
                     (Inr (Some p), nb, w2) \<Rightarrow>
                       (Inr p, updatePeak (a1\<lparr>buffers := bs @ [nb]\<rparr>), w2)
                   | (Inr None, nb, w2) \<Rightarrow>
                       (Inl FailedOnNewBuffer, a1\<lparr>buffers := bs @ [nb]\<rparr>, w2)
                   | (Inl e, nb, w2) \<Rightarrow> (Inl e, a1\<lparr>buffers := bs @ [nb]\<rparr>, w2)))"

definition monotonicArena_Reset :: "monotonicArena \<Rightarrow> monotonicArena" where
  "monotonicArena_Reset a = a\<lparr>buffers := map monotonicBuffer_reset (buffers a)\<rparr>"

definition monotonicArena_Release :: "monotonicArena \<Rightarrow> monotonicArena" where
  "monotonicArena_Release a = a\<lparr>buffers := map monotonicBuffer_release (buffers a)\<rparr>"

definition monotonicArena_Len :: "monotonicArena \<Rightarrow> int" where
  "monotonicArena_Len a = int_of_uintptr (monotonicArena_len a)"

definition monotonicArena_Cap :: "monotonicArena \<Rightarrow> int" where
  "monotonicArena_Cap a = int_of_uintptr (uintptr (sum_list (map bufsize (buffers a))))"

definition monotonicArena_Peak :: "monotonicArena \<Rightarrow> int" where
  "monotonicArena_Peak a = int_of_uintptr (peak a)"

section \<open>The Arena interface and the concurrent arena\<close>

text \<open>
  The interface \<^verbatim>\<open>Arena\<close> has two implementations in the package. A value of the
  interface is an \<open>arena option\<close>, \<open>None\<close> being the nil interface. The concurrent arena
  wraps an interface value that may be nil; its mutex is left out.
\<close>

datatype arena = Monotonic monotonicArena | Concurrent "arena option"

definition NewConcurrentArena :: "arena option \<Rightarrow> arena" where
  "NewConcurrentArena a = Concurrent a"

fun Alloc ::
  "runtime \<Rightarrow> world \<Rightarrow> arena \<Rightarrow> nat \<Rightarrow> nat \<Rightarrow> (error + nat) \<times> arena \<times> world" where
  "Alloc R w (Monotonic m) sz al =
     (case monotonicArena_Alloc R w m sz al of (r, m', w') \<Rightarrow> (r, Monotonic m', w'))"
| "Alloc R w (Concurrent None) sz al = (Inr 0, Concurrent None, w)"
| "Alloc R w (Concurrent (Some a)) sz al =
     (case Alloc R w a sz al of (r, a', w') \<Rightarrow> (r, Concurrent (Some a'), w'))"

fun Reset :: "arena \<Rightarrow> arena" where
  "Reset (Monotonic m) = Monotonic (monotonicArena_Reset m)"
| "Reset (Concurrent None) = Concurrent None"
| "Reset (Concurrent (Some a)) = Concurrent (Some (Reset a))"

fun Release :: "arena \<Rightarrow> arena" where
  "Release (Monotonic m) = Monotonic (monotonicArena_Release m)"
| "Release (Concurrent None) = Concurrent None"
| "Release (Concurrent (Some a)) = Concurrent (Some (Release a))"

fun Len :: "arena \<Rightarrow> int" where
  "Len (Monotonic m) = monotonicArena_Len m"
| "Len (Concurrent None) = 0"
| "Len (Concurrent (Some a)) = Len a"

fun Cap :: "arena \<Rightarrow> int" where
  "Cap (Monotonic m) = monotonicArena_Cap m"
| "Cap (Concurrent None) = 0"
| "Cap (Concurrent (Some a)) = Cap a"

fun Peak :: "arena \<Rightarrow> int" where
  "Peak (Monotonic m) = monotonicArena_Peak m"
| "Peak (Concurrent None) = 0"
| "Peak (Concurrent (Some a)) = Peak a"

section \<open>Slices\<close>

text \<open>
  A slice is a view of a backing array: \<open>array s\<close> holds the \<^verbatim>\<open>cap(s)\<close> elements of the
  array from the start of the slice on, of which the first \<open>len s\<close> are the elements of
  the slice, and \<open>origin s\<close> tells where the array lives. An element type \<^verbatim>\<open>T\<close> is a
  type of class \<open>zero\<close> (\<open>0\<close> is its zero value) with its \<^verbatim>\<open>unsafe.Sizeof\<close> and
  \<^verbatim>\<open>unsafe.Alignof\<close> passed as arguments. Arena memory is handed out zeroed, so a
  slice formed over it holds zero values.
\<close>

datatype origin = NilSlice | HostArray | ArenaArray nat

record 'a slice =
  origin :: origin
  array :: "'a list"
  len :: nat

definition cap :: "'a slice \<Rightarrow> nat" where
  "cap s = length (array s)"

definition elements :: "'a slice \<Rightarrow> 'a list" where
  "elements s = take (len s) (array s)"

definition nilSlice :: "'a slice" where
  "nilSlice = \<lparr>origin = NilSlice, array = [], len = 0\<rparr>"

text \<open>The slice expressions \<^verbatim>\<open>s[:j]\<close> and \<^verbatim>\<open>s[i:j]\<close>.\<close>

definition sliceTo :: "'a slice \<Rightarrow> int \<Rightarrow> error + 'a slice" where
  "sliceTo s j =
     (if j < 0 \<or> int (cap s) < j then Inl SliceBoundsOutOfRange
      else Inr (s\<lparr>len := nat j\<rparr>))"

definition sliceFromTo :: "'a slice \<Rightarrow> int \<Rightarrow> int \<Rightarrow> error + 'a slice" where
  "sliceFromTo s i j =
     (if i < 0 \<or> j < i \<or> int (cap s) < j then Inl SliceBoundsOutOfRange
      else Inr (s\<lparr>array := drop (nat i) (array s), len := nat (j - i)\<rparr>))"

text \<open>The built-in \<^verbatim>\<open>copy(dst, src)\<close>; it returns the number of elements copied and
  behaves as a \<^verbatim>\<open>memmove\<close> when the two overlap.\<close>

definition go_copy :: "'a slice \<Rightarrow> 'a slice \<Rightarrow> nat \<times> 'a slice" where
  "go_copy dst src =
     (let n = min (len dst) (len src)
      in (n, dst\<lparr>array := take n (array src) @ drop n (array dst)\<rparr>))"

text \<open>The built-in \<^verbatim>\<open>make([]T, len, cap)\<close>.\<close>

definition make_slice :: "int \<Rightarrow> int \<Rightarrow> error + ('a::zero) slice" where
  "make_slice l c =
     (if l < 0 \<or> c < 0 \<or> c < l then Inl MakeSliceOutOfRange
      else Inr \<lparr>origin = HostArray, array = replicate (nat c) 0, len = nat l\<rparr>)"

text \<open>The built-in \<^verbatim>\<open>append(s, data...)\<close>: in place while the capacity suffices, into a
  fresh host array of the capacity the runtime picks otherwise.\<close>

definition go_append :: "runtime \<Rightarrow> ('a::zero) slice \<Rightarrow> 'a list \<Rightarrow> 'a slice" where
  "go_append R s data =
     (let n = len s + length data
      in if n \<le> cap s
         then s\<lparr>array := take (len s) (array s) @ data @ drop n (array s), len := n\<rparr>
         else \<lparr>origin = HostArray,
               array = take (len s) (array s) @ data
                       @ replicate (max n (appendCap R (cap s) n) - n) 0,
               len = n\<rparr>)"

section \<open>The typed helpers\<close>

text \<open>A \<^verbatim>\<open>*T\<close>: either arena memory at an address (\<open>ArenaPtr 0\<close> is the nil pointer) or
  a variable that \<^verbatim>\<open>new(T)\<close> made, with the value it holds.\<close>

datatype 'a tptr = ArenaPtr nat | HostNew 'a

fun isNil :: "'a tptr \<Rightarrow> bool" where
  "isNil (ArenaPtr p) = (p = 0)"
| "isNil (HostNew v) = False"

definition Allocate ::
  "runtime \<Rightarrow> world \<Rightarrow> arena option \<Rightarrow> nat \<Rightarrow> nat
     \<Rightarrow> (error + ('a::zero) tptr) \<times> arena option \<times> world" where
  "Allocate R w a sizeofT alignofT =
     (case a of
        Some ar \<Rightarrow>
          (case Alloc R w ar sizeofT alignofT of
             (Inl e, ar', w') \<Rightarrow> (Inl e, Some ar', w')
           | (Inr p, ar', w') \<Rightarrow>
               if p \<noteq> 0 then (Inr (ArenaPtr p), Some ar', w')
               else (Inr (HostNew 0), Some ar', w'))
      | None \<Rightarrow> (Inr (HostNew 0), None, w))"

text \<open>\<^verbatim>\<open>AllocateSlice\<close>: the byte count \<^verbatim>\<open>int(unsafe.Sizeof(x)) * cap\<close> reaches \<^verbatim>\<open>Alloc\<close> as
  a \<^verbatim>\<open>uintptr\<close>; \<^verbatim>\<open>unsafe.Slice(ptr, cap)\<close> panics on a negative capacity and on an
  array that would run past the end of the address space, and \<^verbatim>\<open>s[:len]\<close> on a length
  outside \<open>0..cap\<close>.\<close>

definition AllocateSlice ::
  "runtime \<Rightarrow> world \<Rightarrow> arena option \<Rightarrow> nat \<Rightarrow> nat \<Rightarrow> int \<Rightarrow> int
     \<Rightarrow> (error + ('a::zero) slice) \<times> arena option \<times> world" where
  "AllocateSlice R w a sizeofT alignofT l c =
     (case a of
        Some ar \<Rightarrow>
          (let bufSize = int sizeofT * c
           in case Alloc R w ar (uintptr_of_int bufSize) alignofT of
                (Inl e, ar', w') \<Rightarrow> (Inl e, Some ar', w')
              | (Inr p, ar', w') \<Rightarrow>
                  if p \<noteq> 0
                  then (if c < 0 \<or> int (uintptr (2 ^ 64 - uintptr p)) < int sizeofT * c
                        then (Inl UnsafeSliceOutOfRange, Some ar', w')
                        else if l < 0 \<or> c < l then (Inl SliceBoundsOutOfRange, Some ar', w')
                        else (Inr \<lparr>origin = ArenaArray p, array = replicate (nat c) 0,
                                   len = nat l\<rparr>, Some ar', w'))
                  else (make_slice l c, Some ar', w'))
      | None \<Rightarrow> (make_slice l c, None, w))"

text \<open>
  The loop of \<^verbatim>\<open>growSlice\<close>,
  \<^verbatim>\<open>for newLen > newCap { if newCap < growThreshold { newCap *= 2 } else { newCap += newCap / 4 } }\<close>,
  which the function enters only under \<^verbatim>\<open>newCap > 0\<close>; that test is repeated in the
  loop test to make the function total.
\<close>

definition growThreshold :: nat where
  "growThreshold = 256"

function growLoop :: "nat \<Rightarrow> nat \<Rightarrow> nat" where
  "growLoop newLen newCap =
     (if 0 < newCap \<and> newCap < newLen
      then growLoop newLen (if newCap < growThreshold then newCap * 2 else newCap + newCap div 4)
      else newCap)"
  by pat_completeness auto
termination
  by (relation "measure (\<lambda>(newLen, newCap). newLen - newCap)")
     (auto simp: growThreshold_def)

declare growLoop.simps [simp del]

text \<open>The first half of \<^verbatim>\<open>growSlice\<close>: the capacity \<^verbatim>\<open>newCap\<close> it settles on.\<close>

definition growCap :: "'a slice \<Rightarrow> nat \<Rightarrow> nat" where
  "growCap s dataLen =
     (let newLen = len s + dataLen; newCap = cap s
      in if newCap > 0 then growLoop newLen newCap else dataLen)"

definition growSlice ::
  "runtime \<Rightarrow> world \<Rightarrow> arena \<Rightarrow> nat \<Rightarrow> nat \<Rightarrow> ('a::zero) slice \<Rightarrow> nat
     \<Rightarrow> (error + 'a slice) \<times> arena option \<times> world" where
  "growSlice R w a sizeofT alignofT s dataLen =
     (let newCap = growCap s dataLen
      in if newCap = cap s then (Inr s, Some a, w)
         else
           case AllocateSlice R w (Some a) sizeofT alignofT (int (len s)) (int newCap) of
             (Inl e, a', w') \<Rightarrow> (Inl e, a', w')
           | (Inr s2, a', w') \<Rightarrow> (Inr (snd (go_copy s2 s)), a', w'))"

definition SliceAppend ::
  "runtime \<Rightarrow> world \<Rightarrow> arena option \<Rightarrow> nat \<Rightarrow> nat \<Rightarrow> ('a::zero) slice \<Rightarrow> 'a list
     \<Rightarrow> (error + 'a slice) \<times> arena option \<times> world" where
  "SliceAppend R w a sizeofT alignofT s data =
     (case a of
        None \<Rightarrow> (Inr (go_append R s data), None, w)
      | Some ar \<Rightarrow>
          (case growSlice R w ar sizeofT alignofT s (length data) of
             (Inl e, a', w') \<Rightarrow> (Inl e, a', w')
           | (Inr s1, a', w') \<Rightarrow> (Inr (go_append R s1 data), a', w')))"

section \<open>The byte buffer\<close>

type_synonym byte = "8 word"

datatype ioError = EOF

record Buffer =
  arena :: "arena option"
  buf :: "byte slice"
  off :: int
  readBuf :: "byte slice"

text \<open>\<^verbatim>\<open>unsafe.Sizeof\<close> and \<^verbatim>\<open>unsafe.Alignof\<close> of a byte.\<close>

definition sizeofByte :: nat where
  "sizeofByte = 1"

definition alignofByte :: nat where
  "alignofByte = 1"

definition NewArenaBuffer :: "arena option \<Rightarrow> Buffer" where
  "NewArenaBuffer a = \<lparr>arena = a, buf = nilSlice, off = 0, readBuf = nilSlice\<rparr>"

text \<open>\<^verbatim>\<open>Write\<close> returns \<^verbatim>\<open>(n, nil)\<close>; the model returns \<open>n\<close>, or the panic of the arena.\<close>

definition Buffer_Write ::
  "runtime \<Rightarrow> world \<Rightarrow> Buffer \<Rightarrow> byte list \<Rightarrow> (error + int) \<times> Buffer \<times> world" where
  "Buffer_Write R w b p =
     (if length p = 0 then (Inr 0, b, w)
      else
        case SliceAppend R w (arena b) sizeofByte alignofByte (buf b) p of
          (Inl e, a', w') \<Rightarrow> (Inl e, b\<lparr>arena := a'\<rparr>, w')
        | (Inr s, a', w') \<Rightarrow>
            (Inr (int (length p)), b\<lparr>arena := a', buf := s, off := int (len s)\<rparr>, w'))"

text \<open>\<^verbatim>\<open>Read(p)\<close> returns \<^verbatim>\<open>(n, err)\<close> and writes into the caller's slice \<open>p\<close>, which the
  model returns as well.\<close>

definition Buffer_Read ::
  "Buffer \<Rightarrow> byte slice \<Rightarrow> (error + int \<times> ioError option) \<times> byte slice \<times> Buffer" where
  "Buffer_Read b p =
     (if off b = 0 then (Inr (0, Some EOF), p, b)
      else
        case sliceTo (buf b) (off b) of
          Inl e \<Rightarrow> (Inl e, p, b)
        | Inr src \<Rightarrow>
            (let (n, p') = go_copy p src;
                 err = (if n < len p then Some EOF else None)
             in case sliceFromTo (buf b) (int n) (off b) of
                  Inl e \<Rightarrow> (Inl e, p', b)
                | Inr rest \<Rightarrow>
                    (Inr (int n, err), p',
                     b\<lparr>buf := snd (go_copy (buf b) rest), off := off b - int n\<rparr>)))"

definition Buffer_Bytes :: "Buffer \<Rightarrow> error + byte slice" where
  "Buffer_Bytes b =
     (if off b = 0 then Inr \<lparr>origin = HostArray, array = [], len = 0\<rparr>
      else sliceTo (buf b) (off b))"

definition Buffer_String :: "Buffer \<Rightarrow> error + byte list" where
  "Buffer_String b =
     (case sliceTo (buf b) (off b) of Inl e \<Rightarrow> Inl e | Inr s \<Rightarrow> Inr (elements s))"

definition Buffer_Len :: "Buffer \<Rightarrow> int" where
  "Buffer_Len b = off b"

definition Buffer_Cap :: "Buffer \<Rightarrow> int" where
  "Buffer_Cap b = int (cap (buf b))"

definition Buffer_Reset :: "Buffer \<Rightarrow> Buffer" where
  "Buffer_Reset b =
     (let b1 = b\<lparr>off := 0\<rparr>
      in if origin (buf b1) \<noteq> NilSlice then b1\<lparr>buf := (buf b1)\<lparr>len := 0\<rparr>\<rparr> else b1)"

definition Buffer_Truncate :: "Buffer \<Rightarrow> int \<Rightarrow> error + Buffer" where
  "Buffer_Truncate b n =
     (if n < 0 \<or> n > off b then Inl TruncationOutOfRange else Inr (b\<lparr>off := n\<rparr>))"

section \<open>The arena pool\<close>

text \<open>
  A \<^verbatim>\<open>*PoolItem\<close> is an address into a heap of pool items; an address the heap does
  not hold is the nil pointer. A weak pointer of the pool list is the address it was
  made from. Each pool item holds its arena by value. Keys (\<^verbatim>\<open>uint64\<close>) are natural
  numbers.
\<close>

record arenaPoolItemSize =
  count :: int
  totalBytes :: int

record PoolItem =
  Arena :: "arena option"
  Key :: nat

record Pool =
  pool :: "nat list"
  sizes :: "nat \<rightharpoonup> arenaPoolItemSize"

type_synonym itemHeap = "nat \<rightharpoonup> PoolItem"

text \<open>Go's integer division truncates towards zero.\<close>

definition go_quot :: "int \<Rightarrow> int \<Rightarrow> int" where
  "go_quot a b = sgn a * sgn b * (\<bar>a\<bar> div \<bar>b\<bar>)"

definition NewArenaPool :: Pool where
  "NewArenaPool = \<lparr>pool = [], sizes = Map.empty\<rparr>"

definition Pool_Release :: "itemHeap \<Rightarrow> Pool \<Rightarrow> nat \<Rightarrow> error option \<times> itemHeap \<times> Pool" where
  "Pool_Release h p item =
     (case h item of
        None \<Rightarrow> (Some NilDereference, h, p)
      | Some it \<Rightarrow>
          (case Arena it of
             None \<Rightarrow> (Some NilDereference, h, p)
           | Some a \<Rightarrow>
               (let peak = Peak a;
                    it1 = it\<lparr>Arena := Some (Reset a)\<rparr>;
                    sizes1 =
                      (case sizes p (Key it1) of
                         Some sz \<Rightarrow>
                           (let sz1 = (if count sz = 50
                                       then sz\<lparr>count := 1,
                                               totalBytes := go_quot (totalBytes sz) 50\<rparr>
                                       else sz)
                            in (sizes p)(Key it1 \<mapsto>
                                 sz1\<lparr>count := count sz1 + 1,
                                      totalBytes := totalBytes sz1 + peak\<rparr>))
                       | None \<Rightarrow> (sizes p)(Key it1 \<mapsto> \<lparr>count = 1, totalBytes = peak\<rparr>));
                    it2 = it1\<lparr>Key := 0\<rparr>
                in (None, h(item \<mapsto> it2), p\<lparr>sizes := sizes1, pool := pool p @ [item]\<rparr>))))"

text \<open>\<^verbatim>\<open>ReleaseMany\<close> repeats the body of \<^verbatim>\<open>Release\<close> in its own loop.\<close>

fun Pool_ReleaseMany ::
  "itemHeap \<Rightarrow> Pool \<Rightarrow> nat list \<Rightarrow> error option \<times> itemHeap \<times> Pool" where
  "Pool_ReleaseMany h p [] = (None, h, p)"
| "Pool_ReleaseMany h p (item # rest) =
     (case h item of
        None \<Rightarrow> (Some NilDereference, h, p)
      | Some it \<Rightarrow>
          (case Arena it of
             None \<Rightarrow> (Some NilDereference, h, p)
           | Some a \<Rightarrow>
               (let peak = Peak a;
                    it1 = it\<lparr>Arena := Some (Reset a)\<rparr>;
                    sizes1 =
                      (case sizes p (Key it1) of
                         Some sz \<Rightarrow>
                           (let sz1 = (if count sz = 50
                                       then sz\<lparr>count := 1,
                                               totalBytes := go_quot (totalBytes sz) 50\<rparr>
                                       else sz)
                            in (sizes p)(Key it1 \<mapsto>
                                 sz1\<lparr>count := count sz1 + 1,
                                      totalBytes := totalBytes sz1 + peak\<rparr>))
                       | None \<Rightarrow> (sizes p)(Key it1 \<mapsto> \<lparr>count = 1, totalBytes = peak\<rparr>));
                    it2 = it1\<lparr>Key := 0\<rparr>
                in Pool_ReleaseMany (h(item \<mapsto> it2))
                     (p\<lparr>sizes := sizes1, pool := pool p @ [item]\<rparr>) rest)))"

text \<open>A caller's loop \<^verbatim>\<open>for _, item := range items { p.Release(item) }\<close>; a panic of
  \<^verbatim>\<open>Release\<close> ends it.\<close>

fun releaseEach ::
  "itemHeap \<Rightarrow> Pool \<Rightarrow> nat list \<Rightarrow> error option \<times> itemHeap \<times> Pool" where
  "releaseEach h p [] = (None, h, p)"
| "releaseEach h p (item # rest) =
     (case Pool_Release h p item of
        (None, h', p') \<Rightarrow> releaseEach h' p' rest
      | (Some e, h', p') \<Rightarrow> (Some e, h', p'))"

definition Pool_getArenaSize :: "Pool \<Rightarrow> nat \<Rightarrow> error + int" where
  "Pool_getArenaSize p k =
     (case sizes p k of
        Some sz \<Rightarrow>
          if count sz = 0 then Inl DivideByZero
          else Inr (go_quot (totalBytes sz) (count sz))
      | None \<Rightarrow> Inr (1024 * 1024))"

section \<open>Sequences of operations on a monotonic arena\<close>

datatype arenaOp = OpAlloc nat nat | OpReset | OpRelease | OpLen | OpCap | OpPeak

text \<open>One operation, from the arena and the world before it to those after it. An
  \<^verbatim>\<open>Alloc\<close> that panics leaves the state it had reached.\<close>

fun applyOp :: "runtime \<Rightarrow> arenaOp \<Rightarrow> monotonicArena \<times> world \<Rightarrow> monotonicArena \<times> world" where
  "applyOp R (OpAlloc sz al) (a, w) = snd (monotonicArena_Alloc R w a sz al)"
| "applyOp R OpReset (a, w) = (monotonicArena_Reset a, w)"
| "applyOp R OpRelease (a, w) = (monotonicArena_Release a, w)"
| "applyOp R OpLen (a, w) = (a, w)"
| "applyOp R OpCap (a, w) = (a, w)"
| "applyOp R OpPeak (a, w) = (a, w)"

definition runOps :: "runtime \<Rightarrow> arenaOp list \<Rightarrow> monotonicArena \<times> world \<Rightarrow> monotonicArena \<times> world" where
  "runOps R ops st = fold (applyOp R) ops st"

text \<open>The invariant that ties the peak to the bytes in use.\<close>

definition peakInv :: "monotonicArena \<Rightarrow> bool" where
  "peakInv a = (monotonicArena_len a \<le> peak a)"

text \<open>The counts of the pool's statistics stay between 1 and 50.\<close>

definition countsInv :: "Pool \<Rightarrow> bool" where
  "countsInv p = (\<forall>k sz. sizes p k = Some sz \<longrightarrow> 1 \<le> count sz \<and> count sz \<le> 50)"

section \<open>Reset and Release\<close>

lemma offset_reset: "offset (monotonicBuffer_reset s) = 0"
  by (simp add: monotonicBuffer_reset_def)

lemma offset_release: "offset (monotonicBuffer_release s) = 0"
  by (simp add: monotonicBuffer_release_def)

lemma sum_offsets_reset: "sum_list (map (offset \<circ> monotonicBuffer_reset) bs) = 0"
  by (induction bs) (simp_all add: offset_reset)

lemma sum_offsets_release: "sum_list (map (offset \<circ> monotonicBuffer_release) bs) = 0"
  by (induction bs) (simp_all add: offset_release)

lemma bufsize_reset: "bufsize (monotonicBuffer_reset s) = bufsize s"
  by (simp add: monotonicBuffer_reset_def)

lemma ptr_reset: "ptr (monotonicBuffer_reset s) = ptr s"
  by (simp add: monotonicBuffer_reset_def)

text \<open>
  Claim C3. For every state of a monotonic arena: after \<^verbatim>\<open>Reset\<close>, \<^verbatim>\<open>Len()\<close> is 0
  while \<^verbatim>\<open>Cap()\<close> and \<^verbatim>\<open>Peak()\<close> are unchanged, and the number of buffers, their
  configured sizes and their base addresses are preserved; after \<^verbatim>\<open>Release\<close>,
  \<^verbatim>\<open>Len()\<close> is 0 and \<^verbatim>\<open>Peak()\<close> is unchanged, every base address is dropped and
  every offset is zero.
\<close>

theorem reset_release_frame:
  "monotonicArena_Len (monotonicArena_Reset a) = 0
   \<and> monotonicArena_Cap (monotonicArena_Reset a) = monotonicArena_Cap a
   \<and> monotonicArena_Peak (monotonicArena_Reset a) = monotonicArena_Peak a
   \<and> length (buffers (monotonicArena_Reset a)) = length (buffers a)
   \<and> map bufsize (buffers (monotonicArena_Reset a)) = map bufsize (buffers a)
   \<and> map ptr (buffers (monotonicArena_Reset a)) = map ptr (buffers a)
   \<and> monotonicArena_Len (monotonicArena_Release a) = 0
   \<and> monotonicArena_Peak (monotonicArena_Release a) = monotonicArena_Peak a
   \<and> map ptr (buffers (monotonicArena_Release a)) = replicate (length (buffers a)) 0
   \<and> map offset (buffers (monotonicArena_Release a)) = replicate (length (buffers a)) 0"
proof -
  have r1: "monotonicArena_Len (monotonicArena_Reset a) = 0"
    by (simp add: monotonicArena_Len_def monotonicArena_len_def monotonicArena_Reset_def
        sum_offsets_reset uintptr_def int_of_uintptr_def)
  have r2: "map bufsize (buffers (monotonicArena_Reset a)) = map bufsize (buffers a)"
    by (simp add: monotonicArena_Reset_def bufsize_reset)
  have r3: "monotonicArena_Cap (monotonicArena_Reset a) = monotonicArena_Cap a"
    using r2 by (simp add: monotonicArena_Cap_def)
  have r4: "monotonicArena_Peak (monotonicArena_Reset a) = monotonicArena_Peak a"
    by (simp add: monotonicArena_Peak_def monotonicArena_Reset_def)
  have r5: "length (buffers (monotonicArena_Reset a)) = length (buffers a)"
    by (simp add: monotonicArena_Reset_def)
  have r6: "map ptr (buffers (monotonicArena_Reset a)) = map ptr (buffers a)"
    by (simp add: monotonicArena_Reset_def ptr_reset)
  have l1: "monotonicArena_Len (monotonicArena_Release a) = 0"
    by (simp add: monotonicArena_Len_def monotonicArena_len_def monotonicArena_Release_def
        sum_offsets_release uintptr_def int_of_uintptr_def)
  have l2: "monotonicArena_Peak (monotonicArena_Release a) = monotonicArena_Peak a"
    by (simp add: monotonicArena_Peak_def monotonicArena_Release_def)
  have l3: "map ptr (buffers (monotonicArena_Release a)) = replicate (length (buffers a)) 0"
    by (simp add: monotonicArena_Release_def monotonicBuffer_release_def comp_def
        map_replicate_const)
  have l4: "map offset (buffers (monotonicArena_Release a)) = replicate (length (buffers a)) 0"
    by (simp add: monotonicArena_Release_def monotonicBuffer_release_def comp_def
        map_replicate_const)
  from r1 r2 r3 r4 r5 r6 l1 l2 l3 l4 show ?thesis
    by simp
qed

section \<open>Alloc on a block that the host did not align\<close>

text \<open>The alignment loop, one step at a time.\<close>

lemma alignLoop_stop: "al = 0 \<or> p mod al = 0 \<Longrightarrow> alignLoop p al k = k"
  by (subst alignLoop.simps) auto

lemma alignLoop_step:
  "al \<noteq> 0 \<Longrightarrow> p mod al \<noteq> 0 \<Longrightarrow>
     alignLoop p al k = alignLoop (uintptr (p + 1)) al (uintptr (k + 1))"
  by (subst alignLoop.simps) simp

lemmas buffer_eval_alloc =
  monotonicBuffer_alloc_def materialise_def make_bytes_def maxAlloc_def
  uintptr_def unsafeSliceOK_def availableBytes_def alignLoop_stop alignLoop_step

lemmas arena_eval =
  NewMonotonicArena_def newMonotonicBuffer_def monotonicArena_len_def
  uintptr_def uintptr_of_int_def int_of_uintptr_def

text \<open>A 24-byte buffer that the host places at \<^verbatim>\<open>0xc000012018\<close>, or 48 bytes further,
  cannot serve 24 bytes aligned to 16: 8 bytes of padding come first.\<close>

lemma alloc_24_16_first:
  "monotonicBuffer_alloc
     \<lparr>hostAddr = (\<lambda>k n. 824633794584 + 48 * k), appendCap = (\<lambda>c n. n)\<rparr>
     \<lparr>mem = (\<lambda>x. 0), allocs = 0\<rparr> \<lparr>ptr = 0, offset = 0, bufsize = 24\<rparr> 24 16
   = (Inr None, \<lparr>ptr = 824633794584, offset = 0, bufsize = 24\<rparr>,
      \<lparr>mem = memclr (\<lambda>x. 0) 824633794584 24, allocs = Suc 0\<rparr>)"
  by (simp add: buffer_eval_alloc)

lemma alloc_24_16_second:
  "monotonicBuffer_alloc
     \<lparr>hostAddr = (\<lambda>k n. 824633794584 + 48 * k), appendCap = (\<lambda>c n. n)\<rparr>
     \<lparr>mem = memclr (\<lambda>x. 0) 824633794584 24, allocs = Suc 0\<rparr>
     \<lparr>ptr = 0, offset = 0, bufsize = 24\<rparr> 24 16
   = (Inr None, \<lparr>ptr = 824633794632, offset = 0, bufsize = 24\<rparr>,
      \<lparr>mem = memclr (memclr (\<lambda>x. 0) 824633794584 24) 824633794632 24,
        allocs = Suc (Suc 0)\<rparr>)"
  by (simp add: buffer_eval_alloc)

lemma alloc_24_16_only:
  "monotonicBuffer_alloc
     \<lparr>hostAddr = (\<lambda>k n. 824633794584), appendCap = (\<lambda>c n. n)\<rparr>
     \<lparr>mem = (\<lambda>x. 0), allocs = 0\<rparr> \<lparr>ptr = 0, offset = 0, bufsize = 24\<rparr> 24 16
   = (Inr None, \<lparr>ptr = 824633794584, offset = 0, bufsize = 24\<rparr>,
      \<lparr>mem = memclr (\<lambda>x. 0) 824633794584 24, allocs = Suc 0\<rparr>)"
  by (simp add: buffer_eval_alloc)

lemma arena_1_24:
  "NewMonotonicArena [WithInitialBufferCount 1, WithMinBufferSize 24]
   = \<lparr>buffers = [\<lparr>ptr = 0, offset = 0, bufsize = 24\<rparr>], peak = 0, minBufferSize = 24,
      initialBufferCount = 1\<rparr>"
  by (simp add: arena_eval)

lemma arena_0_0:
  "NewMonotonicArena [WithMinBufferSize 0, WithInitialBufferCount 0]
   = \<lparr>buffers = [], peak = 0, minBufferSize = 0, initialBufferCount = 0\<rparr>"
  by (simp add: arena_eval)

text \<open>
  Claim C1, at an input where the code departs from it. An arena built with
  \<^verbatim>\<open>WithInitialBufferCount(1), WithMinBufferSize(24)\<close> is asked for 24 bytes aligned
  to 16, and the host places its 24-byte blocks at addresses that are 8 modulo 16
  (\<^verbatim>\<open>0xc000012018\<close>, then \<^verbatim>\<open>0xc000012048\<close>). The first buffer cannot hold 24 bytes
  after 8 bytes of padding; the new buffer is sized with a pad computed from the
  arena's length (0) instead of the block's address, so it is 24 bytes as well, and
  \<^verbatim>\<open>Alloc\<close> panics instead of returning a pointer.
\<close>

theorem Alloc_returns_no_pointer:
  "fst (monotonicArena_Alloc
         \<lparr>hostAddr = (\<lambda>k n. 824633794584 + 48 * k), appendCap = (\<lambda>c n. n)\<rparr>
         \<lparr>mem = (\<lambda>x. 0), allocs = 0\<rparr>
         (NewMonotonicArena [WithInitialBufferCount 1, WithMinBufferSize 24]) 24 16)
   = Inl FailedOnNewBuffer"
proof -
  have new: "newMonotonicBuffer (int_of_uintptr 24) = \<lparr>ptr = 0, offset = 0, bufsize = 24\<rparr>"
    by (simp add: arena_eval)
  show ?thesis
    unfolding arena_1_24 monotonicArena_Alloc_def
    by (simp add: alloc_24_16_first monotonicArena_len_def uintptr_def new
        alloc_24_16_second Let_def)
qed

text \<open>
  Claim C2, at an input where the code departs from it. An arena built with
  \<^verbatim>\<open>WithMinBufferSize(0), WithInitialBufferCount(0)\<close> has no buffer; asked for 24
  bytes aligned to 16 it creates a buffer of \<open>max(0, 24 + 0) = 24\<close> bytes, which the
  host places at \<^verbatim>\<open>0xc000012018\<close>. The allocation on the new buffer needs
  \<open>24 + 8\<close> bytes and fails, and the branch
  \<^verbatim>\<open>panic("failed to allocate on newly created buffer")\<close> is taken, leaving the new
  buffer in the arena.
\<close>

theorem Alloc_panics_on_new_buffer:
  "monotonicArena_len (NewMonotonicArena [WithMinBufferSize 0, WithInitialBufferCount 0]) = 0
   \<and> fst (monotonicArena_Alloc
         \<lparr>hostAddr = (\<lambda>k n. 824633794584), appendCap = (\<lambda>c n. n)\<rparr>
         \<lparr>mem = (\<lambda>x. 0), allocs = 0\<rparr>
         (NewMonotonicArena [WithMinBufferSize 0, WithInitialBufferCount 0]) 24 16)
       = Inl FailedOnNewBuffer
   \<and> map bufsize (buffers (fst (snd (monotonicArena_Alloc
         \<lparr>hostAddr = (\<lambda>k n. 824633794584), appendCap = (\<lambda>c n. n)\<rparr>
         \<lparr>mem = (\<lambda>x. 0), allocs = 0\<rparr>
         (NewMonotonicArena [WithMinBufferSize 0, WithInitialBufferCount 0]) 24 16)))) = [24]"
proof -
  let ?R = "\<lparr>hostAddr = (\<lambda>k n. 824633794584), appendCap = (\<lambda>c n. n)\<rparr>"
  let ?a = "\<lparr>buffers = [], peak = 0, minBufferSize = 0, initialBufferCount = 0\<rparr>"
  have new: "newMonotonicBuffer (int_of_uintptr 24) = \<lparr>ptr = 0, offset = 0, bufsize = 24\<rparr>"
    by (simp add: arena_eval)
  have run: "monotonicArena_Alloc ?R \<lparr>mem = (\<lambda>x. 0), allocs = 0\<rparr> ?a 24 16
      = (Inl FailedOnNewBuffer,
         ?a\<lparr>buffers := [\<lparr>ptr = 824633794584, offset = 0, bufsize = 24\<rparr>]\<rparr>,
         \<lparr>mem = memclr (\<lambda>x. 0) 824633794584 24, allocs = Suc 0\<rparr>)"
    unfolding monotonicArena_Alloc_def
    by (simp add: monotonicArena_len_def uintptr_def new alloc_24_16_only Let_def)
  have len0: "monotonicArena_len ?a = 0"
    by (simp add: monotonicArena_len_def uintptr_def)
  from run len0 show ?thesis
    unfolding arena_0_0 by simp
qed

section \<open>The peak\<close>

text \<open>\<^verbatim>\<open>Alloc\<close> raises the peak to the bytes in use before it returns a pointer, and nothing
  lowers the field \<^verbatim>\<open>peak\<close>.\<close>

lemma updatePeak_inv: "peakInv (updatePeak a)"
  by (simp add: peakInv_def updatePeak_def Let_def monotonicArena_len_def)

lemma updatePeak_mono: "peak a \<le> peak (updatePeak a)"
  by (simp add: updatePeak_def Let_def)

lemma Alloc_peak_mono:
  "monotonicArena_Alloc R w a sz al = (r, a', w') \<Longrightarrow> peak a \<le> peak a'"
  using updatePeak_mono [of "a\<lparr>buffers := bs\<rparr>" for bs]
  by (auto simp: monotonicArena_Alloc_def Let_def
      split: prod.splits sum.splits option.splits if_splits)

lemma Alloc_returns_peakInv:
  "monotonicArena_Alloc R w a sz al = (Inr p, a', w') \<Longrightarrow> peakInv a'"
  using updatePeak_inv [of "a\<lparr>buffers := bs\<rparr>" for bs]
  by (auto simp: monotonicArena_Alloc_def Let_def
      split: prod.splits sum.splits option.splits if_splits)

lemma Reset_peakInv: "peakInv (monotonicArena_Reset a)"
  by (simp add: peakInv_def monotonicArena_len_def monotonicArena_Reset_def
      sum_offsets_reset uintptr_def)

lemma Release_peakInv: "peakInv (monotonicArena_Release a)"
  by (simp add: peakInv_def monotonicArena_len_def monotonicArena_Release_def
      sum_offsets_release uintptr_def)

lemma applyOp_peak_mono: "peak (fst st) \<le> peak (fst (applyOp R op st))"
proof (cases st)
  case (Pair a w)
  show ?thesis
  proof (cases op)
    case (OpAlloc sz al)
    obtain r a' w' where "monotonicArena_Alloc R w a sz al = (r, a', w')"
      by (cases "monotonicArena_Alloc R w a sz al") auto
    with Pair OpAlloc Alloc_peak_mono show ?thesis
      by fastforce
  qed (simp_all add: Pair monotonicArena_Reset_def monotonicArena_Release_def)
qed

text \<open>The two allocations of the run below, on the 32 KB buffer of a default arena that
  the host places at \<^verbatim>\<open>0xc000012000\<close>. The second asks for \<open>2 ^ 64 - 1\<close> bytes aligned to
  16: the padding is 8, the sum \<^verbatim>\<open>size + alignOffset\<close> wraps around to 7, which fits,
  the offset moves from 8 to 15, and \<^verbatim>\<open>unsafe.Slice\<close> panics on the length.\<close>

lemma arena_default:
  "NewMonotonicArena []
   = \<lparr>buffers = [\<lparr>ptr = 0, offset = 0, bufsize = 32768\<rparr>], peak = 0,
      minBufferSize = 32768, initialBufferCount = 1\<rparr>"
  by (simp add: arena_eval)

lemma default_alloc_8_8:
  "monotonicBuffer_alloc
     \<lparr>hostAddr = (\<lambda>k n. 824633794560), appendCap = (\<lambda>c n. n)\<rparr>
     \<lparr>mem = (\<lambda>x. 0), allocs = 0\<rparr> \<lparr>ptr = 0, offset = 0, bufsize = 32768\<rparr> 8 8
   = (Inr (Some 824633794560), \<lparr>ptr = 824633794560, offset = 8, bufsize = 32768\<rparr>,
      \<lparr>mem = memclr (memclr (\<lambda>x. 0) 824633794560 32768) 824633794560 8,
        allocs = Suc 0\<rparr>)"
  by (simp add: buffer_eval_alloc)

lemma default_alloc_max_16:
  "monotonicBuffer_alloc
     \<lparr>hostAddr = (\<lambda>k n. 824633794560), appendCap = (\<lambda>c n. n)\<rparr> w
     \<lparr>ptr = 824633794560, offset = 8, bufsize = 32768\<rparr> 18446744073709551615 16
   = (Inl UnsafeSliceOutOfRange, \<lparr>ptr = 824633794560, offset = 15, bufsize = 32768\<rparr>, w)"
  by (simp add: buffer_eval_alloc)

lemma default_Alloc_8_8:
  "monotonicArena_Alloc
     \<lparr>hostAddr = (\<lambda>k n. 824633794560), appendCap = (\<lambda>c n. n)\<rparr>
     \<lparr>mem = (\<lambda>x. 0), allocs = 0\<rparr> (NewMonotonicArena []) 8 8
   = (Inr 824633794560,
      \<lparr>buffers = [\<lparr>ptr = 824633794560, offset = 8, bufsize = 32768\<rparr>], peak = 8,
        minBufferSize = 32768, initialBufferCount = 1\<rparr>,
      \<lparr>mem = memclr (memclr (\<lambda>x. 0) 824633794560 32768) 824633794560 8,
        allocs = Suc 0\<rparr>)"
  unfolding arena_default monotonicArena_Alloc_def
  by (simp add: default_alloc_8_8 updatePeak_def monotonicArena_len_def uintptr_def)

lemma default_Alloc_max_16:
  "monotonicArena_Alloc
     \<lparr>hostAddr = (\<lambda>k n. 824633794560), appendCap = (\<lambda>c n. n)\<rparr> w
     \<lparr>buffers = [\<lparr>ptr = 824633794560, offset = 8, bufsize = 32768\<rparr>], peak = 8,
       minBufferSize = 32768, initialBufferCount = 1\<rparr> 18446744073709551615 16
   = (Inl UnsafeSliceOutOfRange,
      \<lparr>buffers = [\<lparr>ptr = 824633794560, offset = 15, bufsize = 32768\<rparr>], peak = 8,
        minBufferSize = 32768, initialBufferCount = 1\<rparr>, w)"
  unfolding monotonicArena_Alloc_def
  by (simp add: default_alloc_max_16)

text \<open>
  Claim C4, at an input where the code departs from it. On a default arena whose buffer
  the host places at \<^verbatim>\<open>0xc000012000\<close>, \<^verbatim>\<open>Alloc(8, 8)\<close> returns the first 8 bytes and
  the peak becomes 8. \<^verbatim>\<open>Alloc(2^64 - 1, 16)\<close> then panics in \<^verbatim>\<open>unsafe.Slice\<close>, after the
  buffer's offset has been advanced by the wrapped sum \<^verbatim>\<open>size + alignOffset\<close> and before
  the peak is updated: a caller that recovers finds \<^verbatim>\<open>Len() = 15\<close> above
  \<^verbatim>\<open>Peak() = 8\<close>, although \<^verbatim>\<open>Peak\<close> is documented as the peak number of bytes that
  have been allocated.
\<close>

theorem Len_above_Peak_after_panic:
  "fst (monotonicArena_Alloc
         \<lparr>hostAddr = (\<lambda>k n. 824633794560), appendCap = (\<lambda>c n. n)\<rparr>
         \<lparr>mem = (\<lambda>x. 0), allocs = 0\<rparr> (NewMonotonicArena []) 8 8)
     = Inr 824633794560
   \<and> fst (monotonicArena_Alloc
         \<lparr>hostAddr = (\<lambda>k n. 824633794560), appendCap = (\<lambda>c n. n)\<rparr>
         (snd (runOps \<lparr>hostAddr = (\<lambda>k n. 824633794560), appendCap = (\<lambda>c n. n)\<rparr>
                 [OpAlloc 8 8] (NewMonotonicArena [], \<lparr>mem = (\<lambda>x. 0), allocs = 0\<rparr>)))
         (fst (runOps \<lparr>hostAddr = (\<lambda>k n. 824633794560), appendCap = (\<lambda>c n. n)\<rparr>
                 [OpAlloc 8 8] (NewMonotonicArena [], \<lparr>mem = (\<lambda>x. 0), allocs = 0\<rparr>)))
         18446744073709551615 16)
     = Inl UnsafeSliceOutOfRange
   \<and> monotonicArena_Len
        (fst (runOps \<lparr>hostAddr = (\<lambda>k n. 824633794560), appendCap = (\<lambda>c n. n)\<rparr>
                [OpAlloc 8 8, OpAlloc 18446744073709551615 16]
                (NewMonotonicArena [], \<lparr>mem = (\<lambda>x. 0), allocs = 0\<rparr>))) = 15
   \<and> monotonicArena_Peak
        (fst (runOps \<lparr>hostAddr = (\<lambda>k n. 824633794560), appendCap = (\<lambda>c n. n)\<rparr>
                [OpAlloc 8 8, OpAlloc 18446744073709551615 16]
                (NewMonotonicArena [], \<lparr>mem = (\<lambda>x. 0), allocs = 0\<rparr>))) = 8"
proof -
  have len: "monotonicArena_Len
      \<lparr>buffers = [\<lparr>ptr = 824633794560, offset = 15, bufsize = 32768\<rparr>], peak = 8,
        minBufferSize = 32768, initialBufferCount = 1\<rparr> = 15"
    by (simp add: monotonicArena_Len_def monotonicArena_len_def int_of_uintptr_def
        uintptr_def)
  have pk: "monotonicArena_Peak
      \<lparr>buffers = [\<lparr>ptr = 824633794560, offset = 15, bufsize = 32768\<rparr>], peak = 8,
        minBufferSize = 32768, initialBufferCount = 1\<rparr> = 8"
    by (simp add: monotonicArena_Peak_def int_of_uintptr_def uintptr_def)
  show ?thesis
    by (simp add: runOps_def default_Alloc_8_8 default_Alloc_max_16 len pk)
qed

section \<open>Appending to a slice\<close>

text \<open>The capacity \<^verbatim>\<open>growSlice\<close> settles on, and what \<^verbatim>\<open>SliceAppend\<close> returns when the
  arena has served it.\<close>

lemma growLoop_ge: "0 < c \<Longrightarrow> n \<le> growLoop n c"
proof (induction n c rule: growLoop.induct)
  case (1 newLen newCap)
  show ?case
  proof (cases "newCap < newLen")
    case True
    with "1.prems" have "newLen \<le> growLoop newLen
        (if newCap < growThreshold then newCap * 2 else newCap + newCap div 4)"
      by (intro "1.IH") auto
    with True "1.prems" show ?thesis
      by (subst growLoop.simps) simp
  next
    case False
    then show ?thesis
      by (subst growLoop.simps) simp
  qed
qed

lemma growCap_ge: "len s \<le> cap s \<Longrightarrow> len s + d \<le> growCap s d"
  by (auto simp: growCap_def Let_def growLoop_ge)

lemma growCap_eq:
  "growCap s d = (if cap s = 0 then d else growLoop (len s + d) (cap s))"
  by (simp add: growCap_def Let_def)

lemma growLoop_eq:
  "growLoop n (Suc k)
     = (if Suc k < n
        then growLoop n (if Suc k < 256 then Suc k * 2 else Suc k + Suc k div 4)
        else Suc k)"
  by (subst growLoop.simps) (simp add: growThreshold_def)

lemma AllocateSlice_returns:
  "AllocateSlice R w ao sizeofT alignofT (int l) (int c) = (Inr s2, a1, w1)
     \<Longrightarrow> l \<le> c \<and> array s2 = replicate c 0 \<and> len s2 = l \<and> origin s2 \<noteq> NilSlice"
  by (auto simp: AllocateSlice_def make_slice_def Let_def
      split: option.splits prod.splits sum.splits if_splits)

lemma go_append_in_place:
  assumes "len s + length data \<le> cap s"
  shows "len (go_append R s data) = len s + length data"
    and "cap (go_append R s data) = cap s"
    and "elements (go_append R s data) = elements s @ data"
    and "origin (go_append R s data) = origin s"
  using assms by (simp_all add: go_append_def Let_def cap_def elements_def)

lemma go_copy_fresh:
  assumes "len s \<le> cap s" and "len s \<le> c"
  shows "len (snd (go_copy \<lparr>origin = og, array = replicate c z, len = len s\<rparr> s)) = len s"
    and "cap (snd (go_copy \<lparr>origin = og, array = replicate c z, len = len s\<rparr> s)) = c"
    and "elements (snd (go_copy \<lparr>origin = og, array = replicate c z, len = len s\<rparr> s))
           = elements s"
  using assms by (simp_all add: go_copy_def Let_def cap_def elements_def)

lemma SliceAppend_returns:
  fixes s :: "'a::zero slice"
  assumes "len s \<le> cap s"
    and "SliceAppend R w (Some a) sizeofT alignofT s data = (Inr s', a', w')"
  shows "len s' = len s + length data"
    and "elements s' = elements s @ data"
    and "cap s' = growCap s (length data)"
    and "growCap s (length data) = cap s \<Longrightarrow> origin s' = origin s \<and> a' = Some a \<and> w' = w"
proof -
  let ?c = "growCap s (length data)"
  have fits: "len s + length data \<le> ?c"
    using assms(1) by (rule growCap_ge)
  have "len s' = len s + length data \<and> elements s' = elements s @ data \<and> cap s' = ?c
      \<and> (?c = cap s \<longrightarrow> origin s' = origin s \<and> a' = Some a \<and> w' = w)"
  proof (cases "?c = cap s")
    case True
    then have "SliceAppend R w (Some a) sizeofT alignofT s data
          = (Inr (go_append R s data), Some a, w)"
      by (simp add: SliceAppend_def growSlice_def Let_def)
    with assms(2) have e: "s' = go_append R s data" "a' = Some a" "w' = w"
      by simp_all
    have "len s + length data \<le> cap s"
      using fits True by simp
    with e True show ?thesis
      by (simp add: go_append_in_place)
  next
    case False
    obtain r :: "error + 'a slice" and a1 w1 where al:
      "AllocateSlice R w (Some a) sizeofT alignofT (int (len s)) (int ?c) = (r, a1, w1)"
      by (cases "AllocateSlice R w (Some a) sizeofT alignofT (int (len s)) (int ?c)
            :: (error + 'a slice) \<times> arena option \<times> world") auto
    from assms(2) False al obtain s2 where r: "r = Inr s2"
      and s': "s' = go_append R (snd (go_copy s2 s)) data"
      by (cases r) (simp_all add: SliceAppend_def growSlice_def Let_def)
    from AllocateSlice_returns [OF al [unfolded r]]
    have s2: "s2 = \<lparr>origin = origin s2, array = replicate ?c 0, len = len s\<rparr>"
      by simp
    define s1 where "s1 = snd (go_copy s2 s)"
    have le: "len s \<le> ?c"
      using fits by simp
    have s1: "len s1 = len s" "cap s1 = ?c" "elements s1 = elements s"
      unfolding s1_def by (subst s2, simp add: go_copy_fresh assms(1) le)+
    then have "len s1 + length data \<le> cap s1"
      using fits by simp
    then have "len (go_append R s1 data) = len s1 + length data"
      and "cap (go_append R s1 data) = cap s1"
      and "elements (go_append R s1 data) = elements s1 @ data"
      by (simp_all add: go_append_in_place)
    with s' s1 False show ?thesis
      by (simp add: s1_def)
  qed
  then show "len s' = len s + length data"
    and "elements s' = elements s @ data"
    and "cap s' = growCap s (length data)"
    and "growCap s (length data) = cap s \<Longrightarrow> origin s' = origin s \<and> a' = Some a \<and> w' = w"
    by simp_all
qed

text \<open>The allocations of the run below, on an arena without buffers and without a
  minimal buffer size. The host places the 6-byte block at \<^verbatim>\<open>0xc000012000\<close> and the
  10-byte block at \<^verbatim>\<open>0xc000012012\<close> (a block of 10 bytes is aligned to 2 only).\<close>

lemma alloc_6_1:
  "monotonicBuffer_alloc
     \<lparr>hostAddr = (\<lambda>k n. 824633794560 + 18 * k), appendCap = (\<lambda>c n. n)\<rparr>
     \<lparr>mem = (\<lambda>x. 0), allocs = 0\<rparr> \<lparr>ptr = 0, offset = 0, bufsize = 6\<rparr> 6 (Suc 0)
   = (Inr (Some 824633794560), \<lparr>ptr = 824633794560, offset = 6, bufsize = 6\<rparr>,
      \<lparr>mem = memclr (memclr (\<lambda>x. 0) 824633794560 6) 824633794560 6, allocs = Suc 0\<rparr>)"
  by (simp add: buffer_eval_alloc)

lemma Alloc_6_1:
  "monotonicArena_Alloc
     \<lparr>hostAddr = (\<lambda>k n. 824633794560 + 18 * k), appendCap = (\<lambda>c n. n)\<rparr>
     \<lparr>mem = (\<lambda>x. 0), allocs = 0\<rparr>
     (NewMonotonicArena [WithMinBufferSize 0, WithInitialBufferCount 0]) 6 (Suc 0)
   = (Inr 824633794560,
      \<lparr>buffers = [\<lparr>ptr = 824633794560, offset = 6, bufsize = 6\<rparr>], peak = 6,
        minBufferSize = 0, initialBufferCount = 0\<rparr>,
      \<lparr>mem = memclr (memclr (\<lambda>x. 0) 824633794560 6) 824633794560 6, allocs = Suc 0\<rparr>)"
proof -
  have new: "newMonotonicBuffer (int_of_uintptr 6) = \<lparr>ptr = 0, offset = 0, bufsize = 6\<rparr>"
    by (simp add: arena_eval)
  show ?thesis
    unfolding arena_0_0 monotonicArena_Alloc_def
    by (simp add: monotonicArena_len_def uintptr_def new alloc_6_1 updatePeak_def Let_def)
qed

lemma full_alloc_8_8:
  "monotonicBuffer_alloc
     \<lparr>hostAddr = (\<lambda>k n. 824633794560 + 18 * k), appendCap = (\<lambda>c n. n)\<rparr>
     w \<lparr>ptr = 824633794560, offset = 6, bufsize = 6\<rparr> 8 8
   = (Inr None, \<lparr>ptr = 824633794560, offset = 6, bufsize = 6\<rparr>, w)"
  by (simp add: buffer_eval_alloc)

lemma new_alloc_8_8:
  "monotonicBuffer_alloc
     \<lparr>hostAddr = (\<lambda>k n. 824633794560 + 18 * k), appendCap = (\<lambda>c n. n)\<rparr>
     \<lparr>mem = m, allocs = Suc 0\<rparr> \<lparr>ptr = 0, offset = 0, bufsize = 10\<rparr> 8 8
   = (Inr None, \<lparr>ptr = 824633794578, offset = 0, bufsize = 10\<rparr>,
      \<lparr>mem = memclr m 824633794578 10, allocs = Suc (Suc 0)\<rparr>)"
  by (simp add: buffer_eval_alloc)

lemma Alloc_8_8_fails:
  "monotonicArena_Alloc
     \<lparr>hostAddr = (\<lambda>k n. 824633794560 + 18 * k), appendCap = (\<lambda>c n. n)\<rparr>
     \<lparr>mem = m, allocs = Suc 0\<rparr>
     \<lparr>buffers = [\<lparr>ptr = 824633794560, offset = 6, bufsize = 6\<rparr>], peak = 6,
       minBufferSize = 0, initialBufferCount = 0\<rparr> 8 8
   = (Inl FailedOnNewBuffer,
      \<lparr>buffers = [\<lparr>ptr = 824633794560, offset = 6, bufsize = 6\<rparr>,
                   \<lparr>ptr = 824633794578, offset = 0, bufsize = 10\<rparr>], peak = 6,
        minBufferSize = 0, initialBufferCount = 0\<rparr>,
      \<lparr>mem = memclr m 824633794578 10, allocs = Suc (Suc 0)\<rparr>)"
proof -
  have pad: "alignLoop 6 8 0 = 2"
    by (simp add: alignLoop_stop alignLoop_step uintptr_def)
  have new: "newMonotonicBuffer (int_of_uintptr 10) = \<lparr>ptr = 0, offset = 0, bufsize = 10\<rparr>"
    by (simp add: arena_eval)
  show ?thesis
    unfolding monotonicArena_Alloc_def
    by (simp add: full_alloc_8_8 monotonicArena_len_def uintptr_def pad new new_alloc_8_8
        Let_def)
qed

text \<open>
  Claim C5, at an input where the code departs from it. An arena built with
  \<^verbatim>\<open>WithMinBufferSize(0), WithInitialBufferCount(0)\<close> has served \<^verbatim>\<open>Alloc(6, 1)\<close> from a
  6-byte buffer. \<^verbatim>\<open>SliceAppend\<close> of one \<^verbatim>\<open>uint64\<close> to a nil slice computes the capacity
  1 and asks the arena for 8 bytes aligned to 8. The buffer is full; the new buffer is
  sized with the pad of the arena's length 6, which is 2, so it is 10 bytes, and the host
  places it at \<^verbatim>\<open>0xc000012012\<close>, where the pad is 6. \<^verbatim>\<open>Alloc\<close> panics with
  \<^verbatim>\<open>failed to allocate on newly created buffer\<close>, and \<^verbatim>\<open>SliceAppend\<close> returns no slice.
\<close>

theorem SliceAppend_returns_no_slice:
  "fst (monotonicArena_Alloc
         \<lparr>hostAddr = (\<lambda>k n. 824633794560 + 18 * k), appendCap = (\<lambda>c n. n)\<rparr>
         \<lparr>mem = (\<lambda>x. 0), allocs = 0\<rparr>
         (NewMonotonicArena [WithMinBufferSize 0, WithInitialBufferCount 0]) 6 1)
     = Inr 824633794560
   \<and> fst (SliceAppend
         \<lparr>hostAddr = (\<lambda>k n. 824633794560 + 18 * k), appendCap = (\<lambda>c n. n)\<rparr>
         (snd (runOps \<lparr>hostAddr = (\<lambda>k n. 824633794560 + 18 * k), appendCap = (\<lambda>c n. n)\<rparr>
                 [OpAlloc 6 1]
                 (NewMonotonicArena [WithMinBufferSize 0, WithInitialBufferCount 0],
                  \<lparr>mem = (\<lambda>x. 0), allocs = 0\<rparr>)))
         (Some (Monotonic
            (fst (runOps \<lparr>hostAddr = (\<lambda>k n. 824633794560 + 18 * k), appendCap = (\<lambda>c n. n)\<rparr>
                    [OpAlloc 6 1]
                    (NewMonotonicArena [WithMinBufferSize 0, WithInitialBufferCount 0],
                     \<lparr>mem = (\<lambda>x. 0), allocs = 0\<rparr>)))))
         8 8 (nilSlice :: 64 word slice) [7])
     = Inl FailedOnNewBuffer"
proof -
  have sz: "uintptr_of_int 8 = 8"
    by (simp add: uintptr_of_int_def)
  show ?thesis
    by (simp add: runOps_def Alloc_6_1 SliceAppend_def growSlice_def growCap_def cap_def
        nilSlice_def AllocateSlice_def sz Alloc_8_8_fails)
qed

section \<open>Writing to and reading from the byte buffer\<close>

lemma go_append_any:
  assumes "len s \<le> cap s"
  shows "len (go_append R s data) = len s + length data"
    and "elements (go_append R s data) = elements s @ data"
    and "len (go_append R s data) \<le> cap (go_append R s data)"
  using assms by (simp_all add: go_append_def Let_def cap_def elements_def)

lemma Buffer_Read_whole:
  assumes "off b = int (len (buf b))" and "0 < len (buf b)" and "len (buf b) \<le> cap (buf b)"
    and "len p = len (buf b)" and "len p \<le> cap p"
  shows "\<exists>p' b2. Buffer_Read b p = (Inr (int (len p), None), p', b2)
           \<and> elements p' = elements (buf b) \<and> Buffer_Len b2 = 0"
  using assms
  by (simp add: Buffer_Read_def sliceTo_def sliceFromTo_def go_copy_def Let_def
      Buffer_Len_def elements_def cap_def)

lemma NewArenaBuffer_empty: "len (buf (NewArenaBuffer a)) = 0 \<and> off (NewArenaBuffer a) = 0"
  by (simp add: NewArenaBuffer_def nilSlice_def)

lemma Buffer_Reset_empty:
  "origin (buf b) = NilSlice \<longrightarrow> len (buf b) = 0
     \<Longrightarrow> len (buf (Buffer_Reset b)) = 0 \<and> off (Buffer_Reset b) = 0"
  by (simp add: Buffer_Reset_def Let_def)

text \<open>On a buffer that holds no bytes, which is what \<^verbatim>\<open>NewArenaBuffer\<close> makes and what
  \<^verbatim>\<open>Reset\<close> leaves, a \<^verbatim>\<open>Write\<close> that returns and a \<^verbatim>\<open>Read\<close> of as many bytes make the
  round trip.\<close>

lemma write_read_on_empty:
  assumes "len (buf b) = 0" and "off b = 0"
    and "len p = length bs" and "len p \<le> cap p"
    and wr: "Buffer_Write R w b bs = (Inr n, b1, w1)"
  shows "n = int (length bs)"
    and "\<exists>p' b2. Buffer_Read b1 p
             = (Inr (int (length bs), if bs = [] then Some EOF else None), p', b2)
           \<and> elements p' = bs \<and> Buffer_Len b2 = 0"
proof -
  have "n = int (length bs)
      \<and> (\<exists>p' b2. Buffer_Read b1 p
             = (Inr (int (length bs), if bs = [] then Some EOF else None), p', b2)
           \<and> elements p' = bs \<and> Buffer_Len b2 = 0)"
  proof (cases "bs = []")
    case True
    with assms show ?thesis
      by (auto simp: Buffer_Write_def Buffer_Read_def Buffer_Len_def elements_def)
  next
    case False
    have le: "len (buf b) \<le> cap (buf b)"
      using assms(1) by simp
    obtain r a' w' where sa:
      "SliceAppend R w (arena b) sizeofByte alignofByte (buf b) bs = (r, a', w')"
      by (cases "SliceAppend R w (arena b) sizeofByte alignofByte (buf b) bs") auto
    from wr False sa obtain s' where r: "r = Inr s'"
      and b1: "b1 = b\<lparr>arena := a', buf := s', off := int (len s')\<rparr>"
      and n: "n = int (length bs)"
      by (cases r) (auto simp: Buffer_Write_def)
    have s': "len s' = length bs \<and> elements s' = bs \<and> len s' \<le> cap s'"
    proof (cases "arena b")
      case None
      with sa r have "s' = go_append R (buf b) bs"
        by (simp add: SliceAppend_def)
      with go_append_any [OF le, where R = R and data = bs] assms(1) show ?thesis
        by (simp add: elements_def)
    next
      case (Some ar)
      from sa r Some have sa': "SliceAppend R w (Some ar) sizeofByte alignofByte (buf b) bs
          = (Inr s', a', w')"
        by simp
      from SliceAppend_returns(1-3) [OF le sa'] growCap_ge [OF le, of "length bs"] assms(1)
      show ?thesis
        by (simp add: elements_def)
    qed
    have "\<exists>p' b2. Buffer_Read b1 p = (Inr (int (len p), None), p', b2)
             \<and> elements p' = elements (buf b1) \<and> Buffer_Len b2 = 0"
      using s' False assms(3,4) by (intro Buffer_Read_whole) (simp_all add: b1)
    with n s' False assms(3) show ?thesis
      by (auto simp: b1)
  qed
  then show "n = int (length bs)"
    and "\<exists>p' b2. Buffer_Read b1 p
             = (Inr (int (length bs), if bs = [] then Some EOF else None), p', b2)
           \<and> elements p' = bs \<and> Buffer_Len b2 = 0"
    by simp_all
qed

lemmas buffer_eval =
  Buffer_Write_def Buffer_Read_def Buffer_Len_def Buffer_String_def
  NewArenaBuffer_def nilSlice_def SliceAppend_def go_append_def go_copy_def
  sliceTo_def sliceFromTo_def cap_def elements_def sizeofByte_def alignofByte_def Let_def

text \<open>
  Claim C6, at an input where the code departs from it. A buffer that reads have emptied
  is not a buffer that holds no bytes: \<^verbatim>\<open>Read\<close> lowers \<^verbatim>\<open>off\<close> and leaves the length of
  \<^verbatim>\<open>buf\<close> (its comment says \<^verbatim>\<open>Remove read bytes by shifting remaining data\<close>), and the
  next \<^verbatim>\<open>Write\<close> sets \<^verbatim>\<open>off\<close> to that length again. On a buffer without arena, where
  the host gives the first array the capacity 8: after \<^verbatim>\<open>Write("ab")\<close> and a \<^verbatim>\<open>Read\<close> of
  two bytes \<^verbatim>\<open>Len()\<close> is 0; \<^verbatim>\<open>Write("cd")\<close> then makes the unread window \<^verbatim>\<open>"abcd"\<close>,
  and the \<^verbatim>\<open>Read\<close> of two bytes that follows it returns \<^verbatim>\<open>"ab"\<close>, not \<^verbatim>\<open>"cd"\<close>, and
  leaves \<^verbatim>\<open>Len() = 2\<close>, not 0.
\<close>

theorem Read_returns_bytes_read_before:
  "Buffer_Write \<lparr>hostAddr = (\<lambda>k n. 824633794560), appendCap = (\<lambda>c n. 8)\<rparr>
       \<lparr>mem = (\<lambda>x. 0), allocs = 0\<rparr> (NewArenaBuffer None) [97, 98]
     = (Inr 2,
        \<lparr>arena = None,
          buf = \<lparr>origin = HostArray, array = [97, 98, 0, 0, 0, 0, 0, 0], len = 2\<rparr>,
          off = 2, readBuf = nilSlice\<rparr>,
        \<lparr>mem = (\<lambda>x. 0), allocs = 0\<rparr>)
   \<and> Buffer_Read
       \<lparr>arena = None,
         buf = \<lparr>origin = HostArray, array = [97, 98, 0, 0, 0, 0, 0, 0], len = 2\<rparr>,
         off = 2, readBuf = nilSlice\<rparr>
       \<lparr>origin = HostArray, array = [0, 0], len = 2\<rparr>
     = (Inr (2, None), \<lparr>origin = HostArray, array = [97, 98], len = 2\<rparr>,
        \<lparr>arena = None,
          buf = \<lparr>origin = HostArray, array = [97, 98, 0, 0, 0, 0, 0, 0], len = 2\<rparr>,
          off = 0, readBuf = nilSlice\<rparr>)
   \<and> Buffer_Len
       \<lparr>arena = None,
         buf = \<lparr>origin = HostArray, array = [97, 98, 0, 0, 0, 0, 0, 0], len = 2\<rparr>,
         off = 0, readBuf = nilSlice\<rparr> = 0
   \<and> Buffer_Write \<lparr>hostAddr = (\<lambda>k n. 824633794560), appendCap = (\<lambda>c n. 8)\<rparr>
       \<lparr>mem = (\<lambda>x. 0), allocs = 0\<rparr>
       \<lparr>arena = None,
         buf = \<lparr>origin = HostArray, array = [97, 98, 0, 0, 0, 0, 0, 0], len = 2\<rparr>,
         off = 0, readBuf = nilSlice\<rparr> [99, 100]
     = (Inr 2,
        \<lparr>arena = None,
          buf = \<lparr>origin = HostArray, array = [97, 98, 99, 100, 0, 0, 0, 0], len = 4\<rparr>,
          off = 4, readBuf = nilSlice\<rparr>,
        \<lparr>mem = (\<lambda>x. 0), allocs = 0\<rparr>)
   \<and> Buffer_Read
       \<lparr>arena = None,
         buf = \<lparr>origin = HostArray, array = [97, 98, 99, 100, 0, 0, 0, 0], len = 4\<rparr>,
         off = 4, readBuf = nilSlice\<rparr>
       \<lparr>origin = HostArray, array = [0, 0], len = 2\<rparr>
     = (Inr (2, None), \<lparr>origin = HostArray, array = [97, 98], len = 2\<rparr>,
        \<lparr>arena = None,
          buf = \<lparr>origin = HostArray, array = [99, 100, 99, 100, 0, 0, 0, 0], len = 4\<rparr>,
          off = 2, readBuf = nilSlice\<rparr>)
   \<and> Buffer_Len
       \<lparr>arena = None,
         buf = \<lparr>origin = HostArray, array = [99, 100, 99, 100, 0, 0, 0, 0], len = 4\<rparr>,
         off = 2, readBuf = nilSlice\<rparr> = 2"
proof -
  let ?R = "\<lparr>hostAddr = (\<lambda>k n. 824633794560), appendCap = (\<lambda>c n. 8)\<rparr>"
  let ?w = "\<lparr>mem = (\<lambda>x. 0), allocs = 0\<rparr>"
  let ?p = "\<lparr>origin = HostArray, array = [0, 0 :: byte], len = 2\<rparr>"
  let ?b1 = "\<lparr>arena = None,
      buf = \<lparr>origin = HostArray, array = [97, 98, 0, 0, 0, 0, 0, 0], len = 2\<rparr>,
      off = 2, readBuf = nilSlice\<rparr>"
  let ?b2 = "\<lparr>arena = None,
      buf = \<lparr>origin = HostArray, array = [97, 98, 0, 0, 0, 0, 0, 0], len = 2\<rparr>,
      off = 0, readBuf = nilSlice\<rparr>"
  let ?b3 = "\<lparr>arena = None,
      buf = \<lparr>origin = HostArray, array = [97, 98, 99, 100, 0, 0, 0, 0], len = 4\<rparr>,
      off = 4, readBuf = nilSlice\<rparr>"
  let ?b4 = "\<lparr>arena = None,
      buf = \<lparr>origin = HostArray, array = [99, 100, 99, 100, 0, 0, 0, 0], len = 4\<rparr>,
      off = 2, readBuf = nilSlice\<rparr>"
  have six: "replicate 6 (0 :: byte) = [0, 0, 0, 0, 0, 0]"
    by (simp add: numeral_eq_Suc)
  have w1: "Buffer_Write ?R ?w (NewArenaBuffer None) [97, 98] = (Inr 2, ?b1, ?w)"
    by (simp add: buffer_eval six)
  have r1: "Buffer_Read ?b1 ?p
      = (Inr (2, None), \<lparr>origin = HostArray, array = [97, 98], len = 2\<rparr>, ?b2)"
    by (simp add: buffer_eval)
  have l1: "Buffer_Len ?b2 = 0"
    by (simp add: Buffer_Len_def)
  have w2: "Buffer_Write ?R ?w ?b2 [99, 100] = (Inr 2, ?b3, ?w)"
    by (simp add: buffer_eval)
  have r2: "Buffer_Read ?b3 ?p
      = (Inr (2, None), \<lparr>origin = HostArray, array = [97, 98], len = 2\<rparr>, ?b4)"
    by (simp add: buffer_eval)
  have l2: "Buffer_Len ?b4 = 2"
    by (simp add: Buffer_Len_def)
  from w1 r1 l1 w2 r2 l2 show ?thesis
    by (intro conjI)
qed

section \<open>Truncate\<close>

text \<open>
  Claim C7. For every buffer and every integer \<open>n\<close>, \<^verbatim>\<open>Truncate(n)\<close> panics, with the
  range error and no other, exactly when \<open>n < 0\<close> or \<open>n > Len()\<close>; otherwise the
  unread window (what \<^verbatim>\<open>String\<close> and \<^verbatim>\<open>Bytes\<close> return) becomes the first \<open>n\<close> bytes
  of the previous one, \<^verbatim>\<open>Len()\<close> becomes \<open>n\<close>, and the capacity, the byte slice, the
  arena and the scratch slice are unchanged.
\<close>

theorem Truncate_result:
  "(Buffer_Truncate b n = Inl TruncationOutOfRange) = (n < 0 \<or> Buffer_Len b < n)
   \<and> (\<forall>e. Buffer_Truncate b n = Inl e \<longrightarrow> e = TruncationOutOfRange)
   \<and> (0 \<le> n \<and> n \<le> Buffer_Len b \<longrightarrow>
        (\<exists>b'. Buffer_Truncate b n = Inr b'
           \<and> Buffer_Len b' = n
           \<and> (\<forall>xs. Buffer_String b = Inr xs \<longrightarrow> Buffer_String b' = Inr (take (nat n) xs))
           \<and> (\<forall>s. Buffer_Bytes b = Inr s \<longrightarrow>
                 (\<exists>s'. Buffer_Bytes b' = Inr s' \<and> elements s' = take (nat n) (elements s)))
           \<and> Buffer_Cap b' = Buffer_Cap b
           \<and> buf b' = buf b \<and> arena b' = arena b \<and> readBuf b' = readBuf b))"
proof -
  have p1: "(Buffer_Truncate b n = Inl TruncationOutOfRange) = (n < 0 \<or> Buffer_Len b < n)"
    by (auto simp: Buffer_Truncate_def Buffer_Len_def)
  have p2: "\<forall>e. Buffer_Truncate b n = Inl e \<longrightarrow> e = TruncationOutOfRange"
    by (auto simp: Buffer_Truncate_def)
  have p3: "0 \<le> n \<and> n \<le> Buffer_Len b \<longrightarrow>
        (\<exists>b'. Buffer_Truncate b n = Inr b'
           \<and> Buffer_Len b' = n
           \<and> (\<forall>xs. Buffer_String b = Inr xs \<longrightarrow> Buffer_String b' = Inr (take (nat n) xs))
           \<and> (\<forall>s. Buffer_Bytes b = Inr s \<longrightarrow>
                 (\<exists>s'. Buffer_Bytes b' = Inr s' \<and> elements s' = take (nat n) (elements s)))
           \<and> Buffer_Cap b' = Buffer_Cap b
           \<and> buf b' = buf b \<and> arena b' = arena b \<and> readBuf b' = readBuf b)"
  proof
    assume r: "0 \<le> n \<and> n \<le> Buffer_Len b"
    then have t: "Buffer_Truncate b n = Inr (b\<lparr>off := n\<rparr>)"
      by (simp add: Buffer_Truncate_def Buffer_Len_def)
    have s: "\<forall>xs. Buffer_String b = Inr xs \<longrightarrow>
        Buffer_String (b\<lparr>off := n\<rparr>) = Inr (take (nat n) xs)"
      using r by (auto simp: Buffer_String_def Buffer_Len_def sliceTo_def elements_def
          min_def split: if_splits)
    have y: "\<forall>s. Buffer_Bytes b = Inr s \<longrightarrow>
        (\<exists>s'. Buffer_Bytes (b\<lparr>off := n\<rparr>) = Inr s'
           \<and> elements s' = take (nat n) (elements s))"
      using r by (auto simp: Buffer_Bytes_def Buffer_Len_def sliceTo_def elements_def
          min_def split: if_splits)
    from t s y show "\<exists>b'. Buffer_Truncate b n = Inr b'
           \<and> Buffer_Len b' = n
           \<and> (\<forall>xs. Buffer_String b = Inr xs \<longrightarrow> Buffer_String b' = Inr (take (nat n) xs))
           \<and> (\<forall>s. Buffer_Bytes b = Inr s \<longrightarrow>
                 (\<exists>s'. Buffer_Bytes b' = Inr s' \<and> elements s' = take (nat n) (elements s)))
           \<and> Buffer_Cap b' = Buffer_Cap b
           \<and> buf b' = buf b \<and> arena b' = arena b \<and> readBuf b' = readBuf b"
      by (simp add: Buffer_Len_def Buffer_Cap_def)
  qed
  from p1 p2 p3 show ?thesis
    by (intro conjI)
qed

theorem Truncate_result_witness:
  "Buffer_Truncate
      \<lparr>arena = None,
        buf = \<lparr>origin = HostArray,
               array = [104, 101, 108, 108, 111, 32, 119, 111, 114, 108, 100], len = 11\<rparr>,
        off = 11, readBuf = nilSlice\<rparr> (- 1) = Inl TruncationOutOfRange
   \<and> Buffer_Truncate
      \<lparr>arena = None,
        buf = \<lparr>origin = HostArray,
               array = [104, 101, 108, 108, 111, 32, 119, 111, 114, 108, 100], len = 11\<rparr>,
        off = 11, readBuf = nilSlice\<rparr> 12 = Inl TruncationOutOfRange
   \<and> (\<exists>b'. Buffer_Truncate
      \<lparr>arena = None,
        buf = \<lparr>origin = HostArray,
               array = [104, 101, 108, 108, 111, 32, 119, 111, 114, 108, 100], len = 11\<rparr>,
        off = 11, readBuf = nilSlice\<rparr> 5 = Inr b'
        \<and> Buffer_Len b' = 5
        \<and> Buffer_String b' = Inr [104, 101, 108, 108, 111]
        \<and> Buffer_Cap b' = 11)"
proof -
  let ?b = "\<lparr>arena = None,
        buf = \<lparr>origin = HostArray,
               array = [104, 101, 108, 108, 111, 32, 119, 111, 114, 108, 100 :: byte],
               len = 11\<rparr>,
        off = 11, readBuf = nilSlice\<rparr>"
  have s: "Buffer_String ?b = Inr [104, 101, 108, 108, 111, 32, 119, 111, 114, 108, 100]"
    by (simp add: Buffer_String_def sliceTo_def cap_def elements_def)
  have l: "Buffer_Len ?b = 11" and c: "Buffer_Cap ?b = 11"
    by (simp_all add: Buffer_Len_def Buffer_Cap_def cap_def)
  from Truncate_result [of ?b "- 1"] Truncate_result [of ?b 12] Truncate_result [of ?b 5]
    s l c
  show ?thesis
    by auto
qed

section \<open>The pool\<close>

lemma countsInv_new: "countsInv NewArenaPool"
  by (simp add: countsInv_def NewArenaPool_def)

lemma Release_countsInv:
  assumes "countsInv p" and "Pool_Release h p item = (e, h', p')"
  shows "countsInv p'"
proof (cases "h item")
  case None
  with assms show ?thesis
    by (simp add: Pool_Release_def)
next
  case (Some it)
  show ?thesis
  proof (cases "Arena it")
    case None
    with Some assms show ?thesis
      by (simp add: Pool_Release_def)
  next
    case (Some a)
    show ?thesis
    proof (cases "sizes p (Key it)")
      case None
      with \<open>h item = Some it\<close> Some assms(2) have
        "sizes p' = (sizes p)(Key it \<mapsto> \<lparr>count = 1, totalBytes = Peak a\<rparr>)"
        by (auto simp: Pool_Release_def Let_def)
      with assms(1) show ?thesis
        by (auto simp: countsInv_def)
    next
      case (Some sz)
      with \<open>h item = Some it\<close> \<open>Arena it = Some a\<close> assms(2) have
        "sizes p' = (sizes p)(Key it \<mapsto>
            (if count sz = 50
             then \<lparr>count = 2, totalBytes = go_quot (totalBytes sz) 50 + Peak a\<rparr>
             else \<lparr>count = count sz + 1, totalBytes = totalBytes sz + Peak a\<rparr>))"
        by (auto simp: Pool_Release_def Let_def)
      moreover from assms(1) Some have "1 \<le> count sz \<and> count sz \<le> 50"
        by (simp add: countsInv_def)
      ultimately show ?thesis
        using assms(1) by (auto simp: countsInv_def)
    qed
  qed
qed

lemma releaseEach_countsInv:
  "countsInv p \<Longrightarrow> countsInv (snd (snd (releaseEach h p items)))"
proof (induction items arbitrary: h p)
  case Nil
  then show ?case by simp
next
  case (Cons item rest)
  obtain e h' p' where r: "Pool_Release h p item = (e, h', p')"
    by (cases "Pool_Release h p item") auto
  with Cons.prems have "countsInv p'"
    by (rule Release_countsInv)
  with r Cons.IH [of p' h'] show ?case
    by (cases e) simp_all
qed

text \<open>
  Claim C8. \<^verbatim>\<open>Release\<close> of an item with key \<open>k\<close> whose arena has peak \<open>p\<close>: with no
  statistic for \<open>k\<close> the statistic becomes (1, \<open>p\<close>); with one of count 50 it becomes
  (2, \<open>totalBytes / 50 + p\<close>), the collapse to count 1 followed by the new sample; with
  any other count, the count is incremented and \<open>p\<close> added; the statistics of the other
  keys are untouched. In every pool that releases have built from \<^verbatim>\<open>NewArenaPool\<close>,
  \<^verbatim>\<open>getArenaSize\<close> returns \<open>totalBytes / count\<close> for a key with a statistic (the count
  is never zero there) and 1048576 for a key without.
\<close>

theorem Release_statistic:
  assumes "h item = Some it" and "Arena it = Some a"
  shows "(\<exists>h' p'. Pool_Release h p item = (None, h', p')
           \<and> sizes p' (Key it) = Some
               (case sizes p (Key it) of
                  None \<Rightarrow> \<lparr>count = 1, totalBytes = Peak a\<rparr>
                | Some sz \<Rightarrow>
                    if count sz = 50
                    then \<lparr>count = 1 + 1, totalBytes = go_quot (totalBytes sz) 50 + Peak a\<rparr>
                    else \<lparr>count = count sz + 1, totalBytes = totalBytes sz + Peak a\<rparr>)
           \<and> (\<forall>k. k \<noteq> Key it \<longrightarrow> sizes p' k = sizes p k))
     \<and> Pool_getArenaSize (snd (snd (releaseEach h0 NewArenaPool items))) k =
         (case sizes (snd (snd (releaseEach h0 NewArenaPool items))) k of
            None \<Rightarrow> Inr 1048576
          | Some sz \<Rightarrow> Inr (go_quot (totalBytes sz) (count sz)))"
proof -
  have p1: "\<exists>h' p'. Pool_Release h p item = (None, h', p')
           \<and> sizes p' (Key it) = Some
               (case sizes p (Key it) of
                  None \<Rightarrow> \<lparr>count = 1, totalBytes = Peak a\<rparr>
                | Some sz \<Rightarrow>
                    if count sz = 50
                    then \<lparr>count = 1 + 1, totalBytes = go_quot (totalBytes sz) 50 + Peak a\<rparr>
                    else \<lparr>count = count sz + 1, totalBytes = totalBytes sz + Peak a\<rparr>)
           \<and> (\<forall>k. k \<noteq> Key it \<longrightarrow> sizes p' k = sizes p k)"
    using assms by (cases "sizes p (Key it)") (simp_all add: Pool_Release_def Let_def)
  let ?q = "snd (snd (releaseEach h0 NewArenaPool items))"
  have "countsInv ?q"
    using countsInv_new by (rule releaseEach_countsInv)
  then have p2: "Pool_getArenaSize ?q k =
         (case sizes ?q k of
            None \<Rightarrow> Inr 1048576
          | Some sz \<Rightarrow> Inr (go_quot (totalBytes sz) (count sz)))"
  proof (cases "sizes ?q k")
    case None
    then show ?thesis
      by (simp add: Pool_getArenaSize_def)
  next
    case (Some sz)
    with \<open>countsInv ?q\<close> have "1 \<le> count sz"
      unfolding countsInv_def by blast
    with Some show ?thesis
      by (simp add: Pool_getArenaSize_def)
  qed
  from p1 p2 show ?thesis ..
qed

theorem Release_statistic_witness:
  "[1 \<mapsto> \<lparr>Arena = Some (Monotonic
              \<lparr>buffers = [\<lparr>ptr = 824633794560, offset = 0, bufsize = 1024\<rparr>],
                peak = 300, minBufferSize = 1024, initialBufferCount = 1\<rparr>),
            Key = 7\<rparr>] (1 :: nat)
     = Some \<lparr>Arena = Some (Monotonic
              \<lparr>buffers = [\<lparr>ptr = 824633794560, offset = 0, bufsize = 1024\<rparr>],
                peak = 300, minBufferSize = 1024, initialBufferCount = 1\<rparr>),
            Key = 7\<rparr>
   \<and> sizes (snd (snd (Pool_Release
        [1 \<mapsto> \<lparr>Arena = Some (Monotonic
              \<lparr>buffers = [\<lparr>ptr = 824633794560, offset = 0, bufsize = 1024\<rparr>],
                peak = 300, minBufferSize = 1024, initialBufferCount = 1\<rparr>),
            Key = 7\<rparr>]
        \<lparr>pool = [], sizes = [7 \<mapsto> \<lparr>count = 50, totalBytes = 5000\<rparr>]\<rparr> 1))) 7
       = Some \<lparr>count = 2, totalBytes = 400\<rparr>
   \<and> Pool_getArenaSize (snd (snd (releaseEach
        [1 \<mapsto> \<lparr>Arena = Some (Monotonic
              \<lparr>buffers = [\<lparr>ptr = 824633794560, offset = 0, bufsize = 1024\<rparr>],
                peak = 300, minBufferSize = 1024, initialBufferCount = 1\<rparr>),
            Key = 7\<rparr>]
        NewArenaPool [1]))) 7 = Inr 300
   \<and> Pool_getArenaSize (snd (snd (releaseEach
        [1 \<mapsto> \<lparr>Arena = Some (Monotonic
              \<lparr>buffers = [\<lparr>ptr = 824633794560, offset = 0, bufsize = 1024\<rparr>],
                peak = 300, minBufferSize = 1024, initialBufferCount = 1\<rparr>),
            Key = 7\<rparr>]
        NewArenaPool [1]))) 8 = Inr 1048576"
proof -
  let ?a = "Monotonic
              \<lparr>buffers = [\<lparr>ptr = 824633794560, offset = 0, bufsize = 1024\<rparr>],
                peak = 300, minBufferSize = 1024, initialBufferCount = 1\<rparr>"
  let ?it = "\<lparr>Arena = Some ?a, Key = 7\<rparr>"
  let ?h = "[(1 :: nat) \<mapsto> ?it]"
  let ?p = "\<lparr>pool = [], sizes = [7 \<mapsto> \<lparr>count = 50, totalBytes = 5000\<rparr>]\<rparr>"
  have h1: "?h 1 = Some ?it" and h2: "Arena ?it = Some ?a"
    by simp_all
  have q: "snd (snd (releaseEach ?h NewArenaPool [1]))
      = \<lparr>pool = [1], sizes = [7 \<mapsto> \<lparr>count = 1, totalBytes = 300\<rparr>]\<rparr>"
    by (simp add: Pool_Release_def NewArenaPool_def Let_def monotonicArena_Peak_def
        int_of_uintptr_def uintptr_def)
  from Release_statistic [where h = ?h and item = 1 and it = ?it and a = ?a and p = ?p
        and ?h0.0 = ?h and items = "[1]" and k = 7, OF h1 h2]
    Release_statistic [where h = ?h and item = 1 and it = ?it and a = ?a and p = ?p
        and ?h0.0 = ?h and items = "[1]" and k = 8, OF h1 h2]
    h1 q
  show ?thesis
    by (auto simp: monotonicArena_Peak_def go_quot_def int_of_uintptr_def uintptr_def)
qed

lemma ReleaseMany_step:
  "Pool_ReleaseMany h p (item # rest) =
     (case Pool_Release h p item of
        (None, h', p') \<Rightarrow> Pool_ReleaseMany h' p' rest
      | (Some e, h', p') \<Rightarrow> (Some e, h', p'))"
  unfolding Pool_Release_def Pool_ReleaseMany.simps Let_def
  by (simp split: option.splits)

text \<open>
  Claim C9. For every heap of pool items, every pool and every list of item pointers,
  \<^verbatim>\<open>ReleaseMany\<close> ends in the same state as calling \<^verbatim>\<open>Release\<close> on each item of the
  list in order: the same pool list, the same statistics, and the same items (arenas
  reset, keys zero); and it panics where the sequence of calls would.
\<close>

theorem ReleaseMany_is_Release_each:
  "Pool_ReleaseMany h p items = releaseEach h p items"
proof (induction items arbitrary: h p)
  case Nil
  show ?case by simp
next
  case (Cons item rest)
  obtain e h' p' where r: "Pool_Release h p item = (e, h', p')"
    by (cases "Pool_Release h p item") auto
  show ?case
    by (cases e) (simp_all only: ReleaseMany_step releaseEach.simps r Cons.IH
        prod.case option.case)
qed

section \<open>The typed helpers on an arena that returns nil\<close>

text \<open>
  Claim C10. When the \<^verbatim>\<open>Alloc\<close> of a non-nil arena returns the nil pointer, as that of
  a concurrent arena around a nil arena does, \<^verbatim>\<open>Allocate\<close> returns a host-allocated
  zero value and \<^verbatim>\<open>AllocateSlice\<close> returns a host-allocated slice of the requested
  length and capacity; whatever the arena reference, a pointer that \<^verbatim>\<open>Allocate\<close>
  returns is not nil and a slice that \<^verbatim>\<open>AllocateSlice\<close> returns is not nil and has the
  requested length and capacity.
\<close>

theorem helpers_fall_back:
  "(fst (Alloc R w a sizeofT alignofT) = Inr 0 \<longrightarrow>
      fst (Allocate R w (Some a) sizeofT alignofT) = Inr (HostNew (0 :: 'a :: zero)))
   \<and> (\<forall>r. fst (Allocate R w ao sizeofT alignofT) = Inr (r :: 'a tptr) \<longrightarrow> \<not> isNil r)
   \<and> (0 \<le> l \<and> l \<le> c
        \<and> fst (Alloc R w a (uintptr_of_int (int sizeofT * c)) alignofT) = Inr 0 \<longrightarrow>
      fst (AllocateSlice R w (Some a) sizeofT alignofT l c)
        = Inr \<lparr>origin = HostArray, array = replicate (nat c) (0 :: 'a), len = nat l\<rparr>)
   \<and> (\<forall>s. fst (AllocateSlice R w ao sizeofT alignofT l c) = Inr (s :: 'a slice) \<longrightarrow>
         origin s \<noteq> NilSlice \<and> int (len s) = l \<and> int (cap s) = c)
   \<and> Alloc R w (NewConcurrentArena None) sz al = (Inr 0, NewConcurrentArena None, w)"
proof -
  have a1: "fst (Alloc R w a sizeofT alignofT) = Inr 0 \<longrightarrow>
      fst (Allocate R w (Some a) sizeofT alignofT) = Inr (HostNew (0 :: 'a))"
    by (auto simp: Allocate_def split: prod.splits sum.splits)
  have a2: "\<forall>r. fst (Allocate R w ao sizeofT alignofT) = Inr (r :: 'a tptr) \<longrightarrow> \<not> isNil r"
    by (auto simp: Allocate_def split: option.splits prod.splits sum.splits if_splits)
  have s1: "0 \<le> l \<and> l \<le> c
        \<and> fst (Alloc R w a (uintptr_of_int (int sizeofT * c)) alignofT) = Inr 0 \<longrightarrow>
      fst (AllocateSlice R w (Some a) sizeofT alignofT l c)
        = Inr \<lparr>origin = HostArray, array = replicate (nat c) (0 :: 'a), len = nat l\<rparr>"
    by (auto simp: AllocateSlice_def Let_def make_slice_def split: prod.splits sum.splits)
  have s2: "\<forall>s. fst (AllocateSlice R w ao sizeofT alignofT l c) = Inr (s :: 'a slice) \<longrightarrow>
         origin s \<noteq> NilSlice \<and> int (len s) = l \<and> int (cap s) = c"
    by (auto simp: AllocateSlice_def Let_def make_slice_def cap_def
        split: option.splits prod.splits sum.splits if_splits)
  have c: "Alloc R w (NewConcurrentArena None) sz al = (Inr 0, NewConcurrentArena None, w)"
    by (simp add: NewConcurrentArena_def)
  from a1 a2 s1 s2 c show ?thesis
    by (intro conjI)
qed

theorem helpers_fall_back_witness:
  "fst (Alloc \<lparr>hostAddr = (\<lambda>k n. 824633794560), appendCap = (\<lambda>c n. 2 * n)\<rparr>
          \<lparr>mem = (\<lambda>x. 0), allocs = 0\<rparr> (NewConcurrentArena None) 8 8) = Inr 0
   \<and> fst (Allocate \<lparr>hostAddr = (\<lambda>k n. 824633794560), appendCap = (\<lambda>c n. 2 * n)\<rparr>
          \<lparr>mem = (\<lambda>x. 0), allocs = 0\<rparr> (Some (NewConcurrentArena None)) 8 8)
       = Inr (HostNew (0 :: int))
   \<and> fst (AllocateSlice \<lparr>hostAddr = (\<lambda>k n. 824633794560), appendCap = (\<lambda>c n. 2 * n)\<rparr>
          \<lparr>mem = (\<lambda>x. 0), allocs = 0\<rparr> (Some (NewConcurrentArena None)) 8 8 2 4)
       = Inr \<lparr>origin = HostArray, array = [0, 0, 0, 0 :: int], len = 2\<rparr>"
proof -
  let ?R = "\<lparr>hostAddr = (\<lambda>k n. 824633794560), appendCap = (\<lambda>c n. 2 * n)\<rparr>"
  let ?w = "\<lparr>mem = (\<lambda>x. 0), allocs = 0\<rparr>"
  have n: "fst (Alloc ?R ?w (NewConcurrentArena None) 8 8) = Inr 0"
    and m: "fst (Alloc ?R ?w (NewConcurrentArena None) (uintptr_of_int (int 8 * 4)) 8) = Inr 0"
    by (simp_all add: NewConcurrentArena_def)
  have r: "replicate (nat 4) (0 :: int) = [0, 0, 0, 0]"
    by (simp add: numeral_eq_Suc)
  from helpers_fall_back [where R = ?R and w = ?w and a = "NewConcurrentArena None"
      and sizeofT = 8 and alignofT = 8 and l = 2 and c = 4 and 'a = int] n m r
  show ?thesis
    by simp
qed

end
